theory Spec2Isabelle
  imports Complex_Main "HOL-Library.AList" "HOL-Library.Sublist"
begin

section \<open>The battle effect-resolution engine: battleCore.js and itemEffects.js\<close>

text \<open>
  A shallow embedding of the turn processor (\<^verbatim>\<open>applyOngoingEffects\<close>), the
  stat recalculation (\<^verbatim>\<open>recalculateDerivedStats\<close>), the death triggers
  (\<^verbatim>\<open>processDefeatedCreatures\<close>), the attack resolution
  (\<^verbatim>\<open>processAttack\<close>) and the item pipeline (\<^verbatim>\<open>getToolEffect\<close>,
  \<^verbatim>\<open>getSpellEffect\<close>, \<^verbatim>\<open>calculateEffectPower\<close>, \<^verbatim>\<open>processTimedEffect\<close>,
  \<^verbatim>\<open>applyTool\<close>, \<^verbatim>\<open>applySpell\<close>).

  Conventions of the embedding.
  \<^item> A JavaScript number is a \<^typ>\<open>real\<close>: the IEEE double is idealised. On creatures,
    tools and spells whose numeric fields hold numbers, \<^verbatim>\<open>NaN\<close> arises in one place:
    the power multiplier of a spell whose \<^verbatim>\<open>spell_type\<close> names an inherited member of
    the caster's \<^verbatim>\<open>stats\<close> object. The multiplier is therefore a number or \<^verbatim>\<open>NaN\<close>, and
    the result of \<^verbatim>\<open>applySpell\<close> says when \<^verbatim>\<open>NaN\<close> has entered the values it returns.
    Durations, turn numbers and \<^verbatim>\<open>maxTurns\<close> are integers in every table of the sources
    and are typed \<^typ>\<open>int\<close>.
  \<^item> A field that may be \<^verbatim>\<open>undefined\<close> or \<^verbatim>\<open>null\<close> is an \<^typ>\<open>'a option\<close>.
  \<^item> An object used as a string-keyed table of numbers (\<^verbatim>\<open>statModifications\<close>,
    \<^verbatim>\<open>statChanges\<close>, the base \<^verbatim>\<open>stats\<close>) is an association list in insertion order,
    which is the order \<^verbatim>\<open>Object.entries\<close> and \<^verbatim>\<open>Object.keys\<close> enumerate.
  \<^item> In-place mutation is explicit state passing: a function that mutates its
    argument returns the mutated value.
  \<^item> A \<^verbatim>\<open>TypeError\<close> of the runtime (a property read on \<^verbatim>\<open>undefined\<close>) is the value
    \<open>None\<close> of the result, and the outcome \<open>Throws\<close> of \<^verbatim>\<open>applySpell\<close>.
  \<^item> \<^verbatim>\<open>Date.now()\<close> and \<^verbatim>\<open>Math.random()\<close> are inputs of the function that calls them.
  \<^item> Fields the engine writes and never reads (\<^verbatim>\<open>icon\<close>, \<^verbatim>\<open>description\<close>, the log
    line) are left out, and so is \<^verbatim>\<open>console\<close> output.
\<close>

subsection \<open>JavaScript primitives\<close>

type_synonym numtable = "(string \<times> real) list"

text \<open>\<^verbatim>\<open>Math.round\<close> rounds half up: \<^verbatim>\<open>Math.round(2.5) = 3\<close>, \<^verbatim>\<open>Math.round(-2.5) = -2\<close>.\<close>

definition js_round :: "real \<Rightarrow> real" where
  "js_round x = of_int \<lfloor>x + 1 / 2\<rfloor>"

definition js_floor :: "real \<Rightarrow> real" where
  "js_floor x = of_int \<lfloor>x\<rfloor>"

text \<open>\<^verbatim>\<open>s.includes(sub)\<close>: \<open>sub\<close> occurs in \<open>s\<close> as a contiguous substring.\<close>

fun includes_str :: "string \<Rightarrow> string \<Rightarrow> bool" where
  "includes_str [] sub = (sub = [])"
| "includes_str (c # cs) sub = (prefix sub (c # cs) \<or> includes_str cs sub)"

text \<open>Truthiness of an optional number and of an optional string.\<close>

definition truthy_num :: "real option \<Rightarrow> bool" where
  "truthy_num v = (case v of None \<Rightarrow> False | Some x \<Rightarrow> x \<noteq> 0)"

definition truthy_str :: "string option \<Rightarrow> bool" where
  "truthy_str v = (case v of None \<Rightarrow> False | Some s \<Rightarrow> s \<noteq> [])"

text \<open>\<^verbatim>\<open>v || d\<close> on an optional number.\<close>

definition num_or :: "real option \<Rightarrow> real \<Rightarrow> real" where
  "num_or v d = (case v of None \<Rightarrow> d | Some x \<Rightarrow> if x = 0 then d else x)"

text \<open>\<^verbatim>\<open>t[k] = v\<close> on a table: an existing key keeps its place, a new key goes last.\<close>

definition table_set :: "numtable \<Rightarrow> string \<Rightarrow> real \<Rightarrow> numtable" where
  "table_set t k v = AList.update k v t"

definition table_get :: "numtable \<Rightarrow> string \<Rightarrow> real option" where
  "table_get t k = map_of t k"

text \<open>\<^verbatim>\<open>Object.entries(t || {})\<close>.\<close>

definition entries :: "numtable option \<Rightarrow> (string \<times> real) list" where
  "entries t = (case t of None \<Rightarrow> [] | Some kvs \<Rightarrow> kvs)"

subsection \<open>Data model\<close>

text \<open>
  Modelled from the spec: the shape of \<^verbatim>\<open>battleStats\<close>. The function
  \<^verbatim>\<open>calculateDerivedStats\<close> that builds it lives in \<^verbatim>\<open>battleCalculations.js\<close>, which is
  not among the sources; the data model of the specification lists its numeric fields,
  and they are the nine stat names the tables of \<^verbatim>\<open>itemEffects.js\<close> and
  \<^verbatim>\<open>battleCore.js\<close> use.
\<close>

record battleStats =
  physicalAttack :: real
  magicalAttack :: real
  physicalDefense :: real
  magicalDefense :: real
  maxHealth :: real
  initiative :: real
  criticalChance :: real
  dodgeChance :: real
  energyCost :: real

text \<open>\<^verbatim>\<open>Object.keys(battleStats)\<close>.\<close>

definition statKeys :: "string list" where
  "statKeys = [''physicalAttack'', ''magicalAttack'', ''physicalDefense'', ''magicalDefense'',
     ''maxHealth'', ''initiative'', ''criticalChance'', ''dodgeChance'', ''energyCost'']"

text \<open>\<^verbatim>\<open>battleStats[stat]\<close>, \<open>None\<close> for \<^verbatim>\<open>undefined\<close>.\<close>

definition getStat :: "battleStats \<Rightarrow> string \<Rightarrow> real option" where
  "getStat b k =
     (if k = ''physicalAttack'' then Some (physicalAttack b)
      else if k = ''magicalAttack'' then Some (magicalAttack b)
      else if k = ''physicalDefense'' then Some (physicalDefense b)
      else if k = ''magicalDefense'' then Some (magicalDefense b)
      else if k = ''maxHealth'' then Some (maxHealth b)
      else if k = ''initiative'' then Some (initiative b)
      else if k = ''criticalChance'' then Some (criticalChance b)
      else if k = ''dodgeChance'' then Some (dodgeChance b)
      else if k = ''energyCost'' then Some (energyCost b)
      else None)"

text \<open>\<^verbatim>\<open>battleStats[stat] = v\<close> for a key that is present (the sources guard every such
  write with \<^verbatim>\<open>battleStats[stat] !== undefined\<close>).\<close>

definition setStat :: "battleStats \<Rightarrow> string \<Rightarrow> real \<Rightarrow> battleStats" where
  "setStat b k v =
     (if k = ''physicalAttack'' then b\<lparr>physicalAttack := v\<rparr>
      else if k = ''magicalAttack'' then b\<lparr>magicalAttack := v\<rparr>
      else if k = ''physicalDefense'' then b\<lparr>physicalDefense := v\<rparr>
      else if k = ''magicalDefense'' then b\<lparr>magicalDefense := v\<rparr>
      else if k = ''maxHealth'' then b\<lparr>maxHealth := v\<rparr>
      else if k = ''initiative'' then b\<lparr>initiative := v\<rparr>
      else if k = ''criticalChance'' then b\<lparr>criticalChance := v\<rparr>
      else if k = ''dodgeChance'' then b\<lparr>dodgeChance := v\<rparr>
      else if k = ''energyCost'' then b\<lparr>energyCost := v\<rparr>
      else b)"

record chargeSpec =
  targetStat :: string
  perTurnBonus :: real
  maxTurns :: int
  finalBurst :: real

text \<open>An active effect. The field \<^verbatim>\<open>type\<close> is \<open>etype\<close>, \<^verbatim>\<open>id\<close> is \<open>effect_id\<close>,
  \<^verbatim>\<open>name\<close> is \<open>effect_name\<close>.\<close>

record effect =
  effect_id :: real
  effect_name :: string
  etype :: string
  duration :: int
  statModifications :: "numtable option"
  healthOverTime :: "real option"
  startTurn :: "int option"
  effectType :: "string option"
  powerLevel :: "string option"
  chargeEffect :: "chargeSpec option"

text \<open>A creature. \<open>activeEffects\<close> may be absent, and an entry of the array may be
  \<^verbatim>\<open>null\<close>.\<close>

record creature =
  creature_id :: string
  species_name :: string
  rarity :: string
  form :: real
  stats :: "numtable option"
  specialty_stats :: "string list option"
  battleStats :: "battleStats option"
  currentHealth :: real
  activeEffects :: "effect option list option"
  permanentModifications :: "numtable option"
  combination_level :: "real option"
  isDefending :: bool
  nextAttackBonus :: "real option"
  currentTurn :: "int option"

definition effectsOf :: "creature \<Rightarrow> effect option list" where
  "effectsOf c = (case activeEffects c of None \<Rightarrow> [] | Some es \<Rightarrow> es)"

subsection \<open>itemEffects.js: processTimedEffect\<close>

definition processTimedEffect :: "effect \<Rightarrow> int \<Rightarrow> int \<Rightarrow> effect" where
  "processTimedEffect eff currentT startT =
     (let turnsPassed = currentT - startT;
          e1 = (case chargeEffect eff of
                  None \<Rightarrow> eff
                | Some ce \<Rightarrow>
                    if effectType eff = Some ''Charge'' then
                      (let chargeProgress =
                             min (real_of_int turnsPassed /
                                  real_of_int (if maxTurns ce = 0 then 3 else maxTurns ce)) 1
                       in if chargeProgress < 1 then
                            eff\<lparr>statModifications :=
                                  Some (table_set (entries (statModifications eff)) (targetStat ce)
                                          (js_floor (perTurnBonus ce * chargeProgress)))\<rparr>
                          else eff)
                    else eff)
      in if effectType eff = Some ''Echo'' \<and> truthy_num (healthOverTime eff) then
           e1\<lparr>healthOverTime :=
                 Some (js_round (num_or (healthOverTime eff) 0 *
                         (8 / 10 + sin (real_of_int turnsPassed * pi / 3) * (3 / 10))))\<rparr>
         else e1)"

subsection \<open>battleCore.js: applyOngoingEffects\<close>

text \<open>
  What the callback of \<^verbatim>\<open>activeEffects.map\<close> updates outside the effect it returns:
  \<^verbatim>\<open>updatedCreature.currentHealth\<close>, \<^verbatim>\<open>updatedCreature.nextAttackBonus\<close>, the table
  \<^verbatim>\<open>currentStatMods\<close> and the flag \<^verbatim>\<open>statsModified\<close>.
\<close>

record tickState =
  ts_health :: real
  ts_bonus :: "real option"
  ts_mods :: numtable
  ts_modified :: bool

text \<open>\<^verbatim>\<open>currentStatMods[stat] = (currentStatMods[stat] || 0) + value\<close>.\<close>

definition addMod :: "numtable \<Rightarrow> string \<times> real \<Rightarrow> numtable" where
  "addMod mods kv = table_set mods (fst kv) (num_or (table_get mods (fst kv)) 0 + snd kv)"

text \<open>The two \<^verbatim>\<open>switch\<close> statements that scale a health-over-time amount.\<close>

definition scaleHealthChange :: "string \<Rightarrow> string \<Rightarrow> real \<Rightarrow> real" where
  "scaleHealthChange difficulty rar h =
     (let h1 = (if difficulty = ''hard'' then js_round (h * (115 / 100))
                else if difficulty = ''expert'' then js_round (h * (125 / 100))
                else h)
      in if rar = ''Legendary'' then js_round (h1 * (12 / 10))
         else if rar = ''Epic'' then js_round (h1 * (115 / 100))
         else if rar = ''Rare'' then js_round (h1 * (11 / 10))
         else h1)"

text \<open>\<^verbatim>\<open>effect.startTurn || 0\<close>.\<close>

definition startOf :: "effect \<Rightarrow> int" where
  "startOf eff = (case startTurn eff of None \<Rightarrow> 0 | Some s \<Rightarrow> s)"

text \<open>The callback of \<^verbatim>\<open>activeEffects.map\<close>, for a creature of rarity \<open>rar\<close> whose
  \<^verbatim>\<open>battleStats.maxHealth\<close> is \<open>maxH\<close> when the tick starts.\<close>

definition tickEffect ::
  "string \<Rightarrow> int \<Rightarrow> string \<Rightarrow> real \<Rightarrow> tickState \<Rightarrow> effect option \<Rightarrow> effect option \<times> tickState" where
  "tickEffect difficulty currentT rar maxH st eo =
     (case eo of
        None \<Rightarrow> (None, st)
      | Some eff \<Rightarrow>
          (let pe = processTimedEffect eff currentT (startOf eff);
               st1 = (case statModifications pe of
                        None \<Rightarrow> st
                      | Some ms \<Rightarrow>
                          if ms = [] then st
                          else st\<lparr>ts_mods := foldl addMod (ts_mods st) ms, ts_modified := True\<rparr>);
               st2 = (case healthOverTime pe of
                        None \<Rightarrow> st1
                      | Some h \<Rightarrow>
                          if h = 0 then st1
                          else st1\<lparr>ts_health :=
                                 min maxH (max 0 (ts_health st1 + scaleHealthChange difficulty rar h))\<rparr>)
           in case (if etype pe = ''charge'' then chargeEffect pe else None) of
                None \<Rightarrow> (Some (pe\<lparr>duration := duration pe - 1\<rparr>), st2)
              | Some ce \<Rightarrow>
                  (let turnsActive = currentT - startOf pe;
                       chargeProgress =
                         min (real_of_int turnsActive /
                              real_of_int (if maxTurns ce = 0 then 3 else maxTurns ce)) 1
                   in if chargeProgress \<ge> 1 \<and> finalBurst ce \<noteq> 0 then
                        (Some (pe\<lparr>duration := 0\<rparr>),
                         st2\<lparr>ts_bonus := Some (num_or (ts_bonus st2) 0 + finalBurst ce)\<rparr>)
                      else
                        (let incrementalBonus = js_floor (perTurnBonus ce * chargeProgress);
                             st3 = (if targetStat ce \<noteq> [] \<and> incrementalBonus > 0 then
                                      st2\<lparr>ts_mods := addMod (ts_mods st2) (targetStat ce, incrementalBonus),
                                          ts_modified := True\<rparr>
                                    else st2)
                         in (Some (pe\<lparr>duration := duration pe - 1\<rparr>), st3)))))"

text \<open>\<^verbatim>\<open>Array.prototype.map\<close> with a callback that updates the enclosing state.\<close>

fun mapState :: "('s \<Rightarrow> 'a \<Rightarrow> 'b \<times> 's) \<Rightarrow> 's \<Rightarrow> 'a list \<Rightarrow> 'b list \<times> 's" where
  "mapState f st [] = ([], st)"
| "mapState f st (x # xs) =
     (case f st x of (y, st1) \<Rightarrow> (case mapState f st1 xs of (ys, st2) \<Rightarrow> (y # ys, st2)))"

text \<open>\<^verbatim>\<open>.filter(effect => effect && effect.duration > 0)\<close>.\<close>

definition keepEffect :: "effect option \<Rightarrow> bool" where
  "keepEffect eo = (case eo of None \<Rightarrow> False | Some e \<Rightarrow> duration e > 0)"

text \<open>\<^verbatim>\<open>if (battleStats[stat] !== undefined) battleStats[stat] = Math.max(0, battleStats[stat] + value)\<close>.\<close>

definition applyMod :: "battleStats \<Rightarrow> string \<times> real \<Rightarrow> battleStats" where
  "applyMod b kv =
     (case getStat b (fst kv) of
        None \<Rightarrow> b
      | Some old \<Rightarrow> setStat b (fst kv) (max 0 (old + snd kv)))"

text \<open>The callback of \<^verbatim>\<open>creatures.map\<close>. The external \<^verbatim>\<open>calculateDerivedStats\<close> is the
  parameter \<open>cds\<close>.\<close>

definition tickCreature ::
  "(creature \<Rightarrow> battleStats) \<Rightarrow> string \<Rightarrow> int \<Rightarrow> creature \<Rightarrow> creature" where
  "tickCreature cds difficulty currentT c =
     (case battleStats c of
        None \<Rightarrow> c
      | Some bs \<Rightarrow>
          (case mapState (tickEffect difficulty currentT (rarity c) (maxHealth bs))
                  \<lparr>ts_health = currentHealth c, ts_bonus = nextAttackBonus c,
                   ts_mods = [], ts_modified = False\<rparr>
                  (effectsOf c) of
             (es, st) \<Rightarrow>
               (let c1 = c\<lparr>currentHealth := ts_health st, nextAttackBonus := ts_bonus st,
                          activeEffects := Some (filter keepEffect es)\<rparr>;
                    c2 = (if ts_modified st then
                            c1\<lparr>battleStats := Some (foldl applyMod (cds c1) (ts_mods st))\<rparr>
                          else c1)
                in c2\<lparr>isDefending := False\<rparr>)))"

text \<open>The field is an array whose entries may be \<^verbatim>\<open>null\<close>; a value that is not an array
  (\<open>None\<close>) gives the empty field.\<close>

definition applyOngoingEffects ::
  "(creature \<Rightarrow> battleStats) \<Rightarrow> creature option list option \<Rightarrow> string \<Rightarrow> int \<Rightarrow> creature option list" where
  "applyOngoingEffects cds creatures difficulty currentT =
     (case creatures of
        None \<Rightarrow> []
      | Some cs \<Rightarrow> map (map_option (tickCreature cds difficulty currentT)) cs)"

subsection \<open>battleCore.js: recalculateDerivedStats\<close>

text \<open>The clamp that follows \<^verbatim>\<open>modifiedStats[stat] += value\<close> for an active effect.\<close>

definition clampStat :: "string \<Rightarrow> real \<Rightarrow> real" where
  "clampStat stat v =
     (if includes_str stat ''Attack'' \<or> includes_str stat ''Defense'' then max 1 v
      else if stat = ''maxHealth'' then max 10 v
      else if stat = ''initiative'' \<or> includes_str stat ''Chance'' then max 0 v
      else v)"

definition addEffectMod :: "battleStats \<Rightarrow> string \<times> real \<Rightarrow> battleStats" where
  "addEffectMod b kv =
     (case getStat b (fst kv) of
        None \<Rightarrow> b
      | Some old \<Rightarrow> setStat b (fst kv) (clampStat (fst kv) (old + snd kv)))"

definition addEffectMods :: "battleStats \<Rightarrow> effect option \<Rightarrow> battleStats" where
  "addEffectMods b eo =
     (case eo of
        None \<Rightarrow> b
      | Some e \<Rightarrow> foldl addEffectMod b (entries (statModifications e)))"

definition addPermanent :: "battleStats \<Rightarrow> string \<times> real \<Rightarrow> battleStats" where
  "addPermanent b kv =
     (case getStat b (fst kv) of
        None \<Rightarrow> b
      | Some old \<Rightarrow> setStat b (fst kv) (old + snd kv))"

definition combineStat :: "real \<Rightarrow> battleStats \<Rightarrow> string \<Rightarrow> battleStats" where
  "combineStat m b stat =
     (case getStat b stat of
        None \<Rightarrow> b
      | Some old \<Rightarrow>
          if \<not> includes_str stat ''Chance'' \<and> stat \<noteq> ''energyCost'' then setStat b stat (js_round (old * m))
          else b)"

text \<open>
  The argument is a creature (on \<^verbatim>\<open>null\<close> the function throws, reading
  \<^verbatim>\<open>creature.battleStats\<close> in its own error branch; no caller passes \<^verbatim>\<open>null\<close>).
  The result is the returned object together with the creature, whose
  \<^verbatim>\<open>currentHealth\<close> the function may lower in place. The returned object is \<open>None\<close>
  for \<^verbatim>\<open>undefined\<close>-or-empty: without \<^verbatim>\<open>stats\<close> the function returns
  \<^verbatim>\<open>creature.battleStats || {}\<close>, and an object without fields carries no stat.
\<close>

definition recalculateDerivedStats ::
  "(creature \<Rightarrow> battleStats) \<Rightarrow> creature \<Rightarrow> battleStats option \<times> creature" where
  "recalculateDerivedStats cds c =
     (if stats c = None then (battleStats c, c)
      else
        (let freshDerivedStats = cds c;
             m1 = foldl addEffectMods freshDerivedStats (effectsOf c);
             m2 = foldl addPermanent m1 (entries (permanentModifications c));
             m3 = (if truthy_num (combination_level c) \<and> num_or (combination_level c) 0 > 0 then
                     foldl (combineStat (1 + num_or (combination_level c) 0 * (8 / 100))) m2 statKeys
                   else m2);
             c1 = (if currentHealth c \<noteq> 0 \<and> currentHealth c > maxHealth m3 then
                     c\<lparr>currentHealth := maxHealth m3\<rparr>
                   else c)
         in (Some m3, c1)))"

subsection \<open>battleCore.js: processDefeatedCreatures\<close>

text \<open>\<^verbatim>\<open>ally.currentTurn || 0\<close>.\<close>

definition turnOf :: "creature \<Rightarrow> int" where
  "turnOf c = (case currentTurn c of None \<Rightarrow> 0 | Some t \<Rightarrow> t)"

text \<open>\<^verbatim>\<open>if (!ally.activeEffects) ally.activeEffects = []; ally.activeEffects.push(e)\<close>.\<close>

definition pushEffect :: "creature \<Rightarrow> effect \<Rightarrow> creature" where
  "pushEffect c e = c\<lparr>activeEffects := Some (effectsOf c @ [Some e])\<rparr>"

text \<open>The four effect literals; \<open>i\<close> is the value of \<^verbatim>\<open>Date.now() + Math.random()\<close>.\<close>

definition finalGift :: "creature \<Rightarrow> real \<Rightarrow> creature \<Rightarrow> effect" where
  "finalGift dead i ally =
     \<lparr>effect_id = i, effect_name = species_name dead @ [CHR 0x27] @ ''s Final Gift'',
      etype = ''legendary_blessing'', duration = 5,
      statModifications = Some [(''physicalAttack'', 2), (''magicalAttack'', 2)],
      healthOverTime = None, startTurn = Some (turnOf ally), effectType = None,
      powerLevel = None, chargeEffect = None\<rparr>"

definition energyRelease :: "real \<Rightarrow> creature \<Rightarrow> effect" where
  "energyRelease i ally =
     \<lparr>effect_id = i, effect_name = ''Energy Release'', etype = ''energy_burst'', duration = 2,
      statModifications = Some [(''energyCost'', - 1)],
      healthOverTime = None, startTurn = Some (turnOf ally), effectType = None,
      powerLevel = None, chargeEffect = None\<rparr>"

definition epicEssence :: "real \<Rightarrow> creature \<Rightarrow> effect" where
  "epicEssence i ally =
     \<lparr>effect_id = i, effect_name = ''Epic Essence'', etype = ''epic_blessing'', duration = 3,
      statModifications = Some [(''physicalAttack'', 1), (''magicalAttack'', 1)],
      healthOverTime = None, startTurn = Some (turnOf ally), effectType = None,
      powerLevel = None, chargeEffect = None\<rparr>"

definition guiltyConscience :: "real \<Rightarrow> creature \<Rightarrow> effect" where
  "guiltyConscience i enemy =
     \<lparr>effect_id = i, effect_name = ''Guilty Conscience'', etype = ''debuff'', duration = 2,
      statModifications = Some [(''initiative'', - 2), (''dodgeChance'', - 1)],
      healthOverTime = None, startTurn = Some (turnOf enemy), effectType = None,
      powerLevel = None, chargeEffect = None\<rparr>"

text \<open>The body of the Legendary branch for one ally. The two \<^verbatim>\<open>+=\<close> on
  \<^verbatim>\<open>ally.battleStats\<close> throw a \<^verbatim>\<open>TypeError\<close> when the ally has no \<^verbatim>\<open>battleStats\<close>.\<close>

definition blessAlly :: "creature \<Rightarrow> real \<Rightarrow> creature \<Rightarrow> creature option" where
  "blessAlly dead i ally =
     (case battleStats ally of
        None \<Rightarrow> None
      | Some b \<Rightarrow>
          Some (pushEffect
                  (ally\<lparr>battleStats := Some (b\<lparr>physicalAttack := physicalAttack b + 2,
                                               magicalAttack := magicalAttack b + 2\<rparr>)\<rparr>)
                  (finalGift dead i ally)))"

text \<open>
  The state of the outer \<^verbatim>\<open>forEach\<close>: the array \<^verbatim>\<open>survivingCreatures\<close> built so far,
  the opposing field (its creatures are mutated in place), and how many ids have been
  drawn; the \<open>k\<close>-th id drawn is \<open>ids k\<close>.
\<close>

type_synonym defeatState = "creature list \<times> creature list \<times> nat"

definition defeatStep :: "(nat \<Rightarrow> real) \<Rightarrow> defeatState \<Rightarrow> creature \<Rightarrow> defeatState option" where
  "defeatStep ids st c =
     (case st of (surv, opp, n) \<Rightarrow>
        if currentHealth c > 0 then Some (surv @ [c], opp, n)
        else
          (let allies =
                 (if rarity c = ''Legendary'' then
                    map_option (\<lambda>s. (s, n + length surv))
                      (those (map (\<lambda>ka. blessAlly c (ids (fst ka)) (snd ka)) (enumerate n surv)))
                  else if (case specialty_stats c of None \<Rightarrow> False | Some sp \<Rightarrow> ''energy'' \<in> set sp) then
                    Some (map (\<lambda>ka. pushEffect (snd ka) (energyRelease (ids (fst ka)) (snd ka)))
                            (enumerate n surv), n + length surv)
                  else if rarity c = ''Epic'' then
                    Some (map (\<lambda>ka. pushEffect (snd ka) (epicEssence (ids (fst ka)) (snd ka)))
                            (enumerate n surv), n + length surv)
                  else Some (surv, n))
           in case allies of
                None \<Rightarrow> None
              | Some (surv1, n1) \<Rightarrow>
                  if rarity c = ''Legendary'' \<or> rarity c = ''Epic'' then
                    Some (surv1,
                          map (\<lambda>ka. pushEffect (snd ka) (guiltyConscience (ids (fst ka)) (snd ka)))
                            (enumerate n1 opp),
                          n1 + length opp)
                  else Some (surv1, opp, n1)))"

fun forEachDefeat :: "(nat \<Rightarrow> real) \<Rightarrow> defeatState \<Rightarrow> creature list \<Rightarrow> defeatState option" where
  "forEachDefeat ids st [] = Some st"
| "forEachDefeat ids st (c # cs) =
     (case defeatStep ids st c of None \<Rightarrow> None | Some st1 \<Rightarrow> forEachDefeat ids st1 cs)"

text \<open>The result is the returned array of survivors together with the opposing field
  as the call leaves it; \<open>None\<close> is the \<^verbatim>\<open>TypeError\<close>.\<close>

definition processDefeatedCreatures ::
  "(nat \<Rightarrow> real) \<Rightarrow> creature list \<Rightarrow> creature list \<Rightarrow> (creature list \<times> creature list) option" where
  "processDefeatedCreatures ids creatures opposingCreatures =
     map_option (\<lambda>st. (fst st, fst (snd st))) (forEachDefeat ids ([], opposingCreatures, 0) creatures)"

subsection \<open>battleCore.js: processAttack\<close>

text \<open>The result of the external \<^verbatim>\<open>calculateDamage\<close>, with the two fields
  \<^verbatim>\<open>processAttack\<close> adds to it.\<close>

record damageResult =
  dr_damage :: real
  dr_isDodged :: bool
  dr_isCritical :: bool
  dr_effectiveness :: string
  dr_damageType :: "string option"
  dr_actualDamage :: "real option"
  dr_comboMultiplier :: "real option"

record attackResult =
  updatedAttacker :: "creature option"
  updatedDefender :: "creature option"
  damage :: real
  finalDamage :: real
  totalDamage :: real
  damageDealt :: real
  actualDamage :: real
  ar_isCritical :: "bool option"
  ar_attackType :: "string option"
  ar_isBlocked :: "bool option"
  ar_damageResult :: damageResult

definition criticalStrikeTrauma :: "real \<Rightarrow> creature \<Rightarrow> effect" where
  "criticalStrikeTrauma now d =
     \<lparr>effect_id = now, effect_name = ''Critical Strike Trauma'', etype = ''debuff'', duration = 1,
      statModifications = Some [(''physicalDefense'', - 2), (''magicalDefense'', - 2)],
      healthOverTime = None, startTurn = Some (turnOf d), effectType = None,
      powerLevel = None, chargeEffect = None\<rparr>"

definition elementalWeakness :: "real \<Rightarrow> creature \<Rightarrow> effect" where
  "elementalWeakness now d =
     \<lparr>effect_id = now + 1, effect_name = ''Elemental Weakness'', etype = ''debuff'', duration = 2,
      statModifications = Some [(''physicalDefense'', - 1), (''magicalDefense'', - 1)],
      healthOverTime = None, startTurn = Some (turnOf d), effectType = None,
      powerLevel = None, chargeEffect = None\<rparr>"

text \<open>
  The externals \<^verbatim>\<open>calculateDamage\<close> and \<^verbatim>\<open>calculateComboBonus\<close> are the parameters
  \<open>calcDamage\<close> and \<open>comboBonus\<close>; \<open>now\<close> is \<^verbatim>\<open>Date.now()\<close> (both debuffs of one
  attack read the same clock value), \<open>r1\<close> and \<open>r2\<close> are the values \<^verbatim>\<open>Math.random()\<close>
  gives to the critical-hit and to the effectiveness roll. The clones carry the fields
  of the model; the legacy fields \<^verbatim>\<open>maxHealth\<close> and \<^verbatim>\<open>health\<close> of a creature, which the
  engine copies and never reads, and the \<^verbatim>\<open>battleLog\<close> string are left out.
\<close>

definition processAttack ::
  "(creature \<Rightarrow> creature \<Rightarrow> string \<Rightarrow> real \<Rightarrow> damageResult) \<Rightarrow> (real \<Rightarrow> real) \<Rightarrow> real \<Rightarrow> real \<Rightarrow> real \<Rightarrow>
   creature option \<Rightarrow> creature option \<Rightarrow> string \<Rightarrow> real \<Rightarrow> attackResult" where
  "processAttack calcDamage comboBonus now r1 r2 attacker defender attackType0 comboLevel =
     (case (attacker, defender, Option.bind attacker battleStats, Option.bind defender battleStats) of
        (Some a, Some d, Some ab, Some db) \<Rightarrow>
          (let attackerClone0 = a\<lparr>activeEffects := Some (effectsOf a)\<rparr>;
               defenderClone0 = d\<lparr>activeEffects := Some (effectsOf d)\<rparr>;
               attackType = (if attackType0 = ''auto'' then
                               (if physicalAttack ab \<ge> magicalAttack ab then ''physical'' else ''magical'')
                             else attackType0);
               attackerClone =
                 (if truthy_num (nextAttackBonus attackerClone0) then
                    attackerClone0\<lparr>battleStats :=
                        Some (if attackType = ''physical'' then
                                ab\<lparr>physicalAttack := physicalAttack ab + num_or (nextAttackBonus a) 0\<rparr>
                              else ab\<lparr>magicalAttack := magicalAttack ab + num_or (nextAttackBonus a) 0\<rparr>),
                      nextAttackBonus := None\<rparr>
                  else attackerClone0);
               comboMultiplier = comboBonus comboLevel;
               dres = calcDamage attackerClone defenderClone0 attackType comboMultiplier
           in if dr_isDodged dres then
                \<lparr>updatedAttacker = Some attackerClone, updatedDefender = Some defenderClone0,
                 damage = 0, finalDamage = 0, totalDamage = 0, damageDealt = 0, actualDamage = 0,
                 ar_isCritical = Some (dr_isCritical dres), ar_attackType = Some attackType,
                 ar_isBlocked = Some True,
                 ar_damageResult = dres\<lparr>dr_comboMultiplier := Some comboMultiplier, dr_damage := 0\<rparr>\<rparr>
              else
                (let previousHealth = currentHealth defenderClone0;
                     newHealth = max 0 (previousHealth - dr_damage dres);
                     dealt = previousHealth - newHealth;
                     d1 = defenderClone0\<lparr>currentHealth := newHealth\<rparr>;
                     d2 = (if dr_isCritical dres \<and> r1 < 2 / 10 then
                             d1\<lparr>activeEffects := Some (effectsOf d1 @ [Some (criticalStrikeTrauma now d1)])\<rparr>
                           else d1);
                     d3 = (if (dr_effectiveness dres = ''very effective'' \<or> dr_effectiveness dres = ''effective'')
                              \<and> r2 < 25 / 100 then
                             d2\<lparr>activeEffects := Some (effectsOf d2 @ [Some (elementalWeakness now d2)])\<rparr>
                           else d2)
                 in \<lparr>updatedAttacker = Some attackerClone, updatedDefender = Some d3,
                     damage = dealt, finalDamage = dealt, totalDamage = dealt, damageDealt = dealt,
                     actualDamage = dealt,
                     ar_isCritical = Some (dr_isCritical dres), ar_attackType = Some attackType,
                     ar_isBlocked = Some False,
                     ar_damageResult = dres\<lparr>dr_actualDamage := Some dealt,
                                           dr_comboMultiplier := Some comboMultiplier, dr_damage := dealt\<rparr>\<rparr>))
      | _ \<Rightarrow>
          \<lparr>updatedAttacker = attacker, updatedDefender = defender,
           damage = 0, finalDamage = 0, totalDamage = 0, damageDealt = 0, actualDamage = 0,
           ar_isCritical = None, ar_attackType = None, ar_isBlocked = None,
           ar_damageResult = \<lparr>dr_damage = 0, dr_isDodged = False, dr_isCritical = False,
                               dr_effectiveness = ''normal'', dr_damageType = None,
                               dr_actualDamage = None, dr_comboMultiplier = None\<rparr>\<rparr>)"

subsection \<open>itemEffects.js: getToolEffect, getSpellEffect, calculateEffectPower\<close>

record tool =
  tool_name :: "string option"
  tool_effect :: "string option"
  tool_type :: "string option"

record spell =
  spell_name :: "string option"
  spell_effect :: "string option"
  spell_type :: "string option"

text \<open>The object \<^verbatim>\<open>getToolEffect\<close> returns; a field is \<open>None\<close> when the object
  literal does not have it.\<close>

record toolEffect =
  te_statChanges :: "numtable option"
  te_energyGain :: "real option"
  te_healthChange :: "real option"
  te_healthOverTime :: "real option"
  te_chargeEffect :: "chargeSpec option"
  te_duration :: "int option"

definition noToolFields :: toolEffect where
  "noToolFields = \<lparr>te_statChanges = None, te_energyGain = None, te_healthChange = None,
     te_healthOverTime = None, te_chargeEffect = None, te_duration = None\<rparr>"

text \<open>
  \<^verbatim>\<open>baseEffects\<close> is an object literal, so \<^verbatim>\<open>baseEffects[type]\<close> also finds the members
  every object inherits from \<^verbatim>\<open>Object.prototype\<close>. Each of them is a function (or, for
  \<^verbatim>\<open>__proto__\<close>, the prototype object): a truthy value with no enumerable field of
  its own, on which every field an effect would have reads \<^verbatim>\<open>undefined\<close>.
\<close>

definition inheritedNames :: "string list" where
  "inheritedNames = [''constructor'', ''__proto__'', ''hasOwnProperty'', ''isPrototypeOf'',
     ''propertyIsEnumerable'', ''toLocaleString'', ''toString'', ''valueOf'',
     ''__defineGetter__'', ''__defineSetter__'', ''__lookupGetter__'', ''__lookupSetter__'']"

definition toolBaseEffects :: "(string \<times> toolEffect) list" where
  "toolBaseEffects =
     [(''energy'', noToolFields\<lparr>te_statChanges := Some [(''energyCost'', - (1 / 2))],
                                te_energyGain := Some 2, te_duration := Some 3\<rparr>),
      (''strength'', noToolFields\<lparr>te_statChanges := Some [(''physicalAttack'', 10), (''physicalDefense'', 5)],
                                  te_duration := Some 2\<rparr>),
      (''magic'', noToolFields\<lparr>te_statChanges := Some [(''physicalDefense'', 10), (''magicalDefense'', 10),
                                                        (''maxHealth'', 15)],
                               te_healthChange := Some 5, te_duration := Some 2\<rparr>),
      (''stamina'', noToolFields\<lparr>te_statChanges := Some [(''physicalDefense'', 5)],
                                 te_healthChange := Some 10,
                                 te_chargeEffect := Some \<lparr>targetStat = ''physicalDefense'', perTurnBonus = 3,
                                                          maxTurns = 3, finalBurst = 25\<rparr>,
                                 te_duration := Some 3\<rparr>),
      (''speed'', noToolFields\<lparr>te_statChanges := Some [(''physicalAttack'', 8), (''magicalAttack'', 8),
                                                        (''physicalDefense'', - 2), (''magicalDefense'', - 2)],
                               te_healthChange := Some 5, te_duration := Some 3\<rparr>)]"

text \<open>\<^verbatim>\<open>baseEffects[type] || { statChanges: { physicalAttack: 3 }, duration: 3 }\<close>.\<close>

definition toolBaseEffect :: "string \<Rightarrow> toolEffect" where
  "toolBaseEffect ty =
     (case map_of toolBaseEffects ty of
        Some e \<Rightarrow> e
      | None \<Rightarrow>
          if ty \<in> set inheritedNames then noToolFields
          else noToolFields\<lparr>te_statChanges := Some [(''physicalAttack'', 3)], te_duration := Some 3\<rparr>)"

text \<open>\<^verbatim>\<open>Object.entries(t || {}).reduce((acc, [stat, value]) => { acc[stat] = f(value); return acc }, {})\<close>.\<close>

definition mapValues :: "(real \<Rightarrow> real) \<Rightarrow> numtable option \<Rightarrow> numtable" where
  "mapValues f t = map (\<lambda>kv. (fst kv, f (snd kv))) (entries t)"

text \<open>The result is \<open>None\<close> for \<^verbatim>\<open>null\<close> or \<^verbatim>\<open>undefined\<close>.\<close>

definition getToolEffect :: "tool option \<Rightarrow> toolEffect option" where
  "getToolEffect t =
     (case t of
        None \<Rightarrow> Some (noToolFields\<lparr>te_statChanges := Some [(''physicalDefense'', 2)], te_duration := Some 1\<rparr>)
      | Some tv \<Rightarrow>
          if truthy_str (tool_effect tv) \<and> truthy_str (tool_type tv) then
            (let eff = the (tool_effect tv);
                 ty = the (tool_type tv);
                 baseEffect = toolBaseEffect ty
             in if eff = ''Surge'' then
                  (if ty = ''strength'' then
                     Some (noToolFields\<lparr>te_statChanges := Some [(''physicalAttack'', 10), (''physicalDefense'', 5)],
                                        te_duration := Some 2\<rparr>)
                   else
                     Some (baseEffect\<lparr>te_statChanges := Some (mapValues (\<lambda>v. v * 2) (te_statChanges baseEffect)),
                                      te_healthChange := Some (num_or (te_healthChange baseEffect) 0 * (15 / 10)),
                                      te_duration := Some 1\<rparr>))
                else if eff = ''Shield'' then
                  (if ty = ''magic'' then
                     Some (noToolFields\<lparr>te_statChanges := Some [(''physicalDefense'', 10), (''magicalDefense'', 10),
                                                                (''maxHealth'', 15)],
                                        te_healthChange := Some 5, te_duration := Some 2\<rparr>)
                   else
                     Some (noToolFields\<lparr>te_statChanges := Some [(''physicalDefense'', 10), (''magicalDefense'', 10),
                                                                (''maxHealth'', 15)],
                                        te_healthChange := Some 8, te_duration := Some 3\<rparr>))
                else if eff = ''Echo'' then
                  (if ty = ''energy'' then
                     Some (noToolFields\<lparr>te_statChanges := Some [(''energyCost'', - (1 / 2))],
                                        te_healthOverTime := Some 2, te_duration := Some 3\<rparr>)
                   else
                     Some (baseEffect\<lparr>te_statChanges :=
                                        Some (mapValues (\<lambda>v. js_round (v * (7 / 10))) (te_statChanges baseEffect)),
                                      te_healthOverTime :=
                                        Some (js_round (num_or (te_healthChange baseEffect) 0 * (25 / 100))),
                                      te_duration := Some 5\<rparr>))
                else if eff = ''Drain'' then
                  (if ty = ''speed'' then
                     Some (noToolFields\<lparr>te_statChanges := Some [(''physicalAttack'', 8), (''magicalAttack'', 8),
                                                                (''physicalDefense'', - 2), (''magicalDefense'', - 2)],
                                        te_healthChange := Some 5, te_duration := Some 3\<rparr>)
                   else
                     Some (noToolFields\<lparr>te_statChanges := Some [(''physicalAttack'', 8), (''magicalAttack'', 8),
                                                                (''physicalDefense'', - 3), (''magicalDefense'', - 3)],
                                        te_healthChange := Some 5, te_duration := Some 3\<rparr>))
                else if eff = ''Charge'' then
                  (if ty = ''stamina'' then
                     Some (noToolFields\<lparr>te_statChanges := Some [(''physicalDefense'', 3)],
                                        te_chargeEffect := Some \<lparr>targetStat = ''physicalDefense'', perTurnBonus = 3,
                                                                 maxTurns = 3, finalBurst = 25\<rparr>,
                                        te_duration := Some 3\<rparr>)
                   else
                     Some (noToolFields\<lparr>te_statChanges := Some [],
                                        te_chargeEffect :=
                                          Some \<lparr>targetStat =
                                                   (case entries (te_statChanges baseEffect) of
                                                      [] \<Rightarrow> ''physicalAttack''
                                                    | kv # _ \<Rightarrow> if fst kv = [] then ''physicalAttack'' else fst kv),
                                                 perTurnBonus = 3, maxTurns = 3, finalBurst = 15\<rparr>,
                                        te_duration := Some 3\<rparr>))
                else
                  Some (baseEffect\<lparr>te_statChanges :=
                                     Some (mapValues (\<lambda>v. js_round (v * (11 / 10))) (te_statChanges baseEffect)),
                                   te_healthChange :=
                                     Some (js_round (num_or (te_healthChange baseEffect) 0 * (11 / 10)))\<rparr>))
          else Some (noToolFields\<lparr>te_statChanges := Some [(''physicalDefense'', 2)], te_duration := Some 1\<rparr>))"

record prepareEffect =
  prep_name :: string
  prep_turns :: int
  prep_damage :: real
  prep_areaEffect :: bool
  prep_stunChance :: real

text \<open>The object \<^verbatim>\<open>getSpellEffect\<close> returns, with the two fields
  (\<^verbatim>\<open>actualDamage\<close>, \<^verbatim>\<open>wasCritical\<close>) that \<^verbatim>\<open>applySpell\<close> adds to its scaled copy.\<close>

record spellEffect =
  se_damage :: "real option"
  se_criticalChance :: "real option"
  se_armorPiercing :: "bool option"
  se_selfHeal :: "real option"
  se_statDrain :: "numtable option"
  se_statGain :: "numtable option"
  se_prepareEffect :: "prepareEffect option"
  se_chargeBonus :: "real option"
  se_statChanges :: "numtable option"
  se_healing :: "real option"
  se_damageReduction :: "real option"
  se_healthOverTime :: "real option"
  se_duration :: "int option"
  se_actualDamage :: "real option"
  se_wasCritical :: "bool option"

definition noSpellFields :: spellEffect where
  "noSpellFields = \<lparr>se_damage = None, se_criticalChance = None, se_armorPiercing = None,
     se_selfHeal = None, se_statDrain = None, se_statGain = None, se_prepareEffect = None,
     se_chargeBonus = None, se_statChanges = None, se_healing = None, se_damageReduction = None,
     se_healthOverTime = None, se_duration = None, se_actualDamage = None, se_wasCritical = None\<rparr>"

definition drainSpell :: "real \<Rightarrow> spellEffect" where
  "drainSpell magicPower =
     noSpellFields\<lparr>se_damage := Some (18 * magicPower), se_selfHeal := Some (10 * magicPower),
                   se_statDrain := Some [(''physicalAttack'', - 3), (''magicalAttack'', - 3)],
                   se_statGain := Some [(''physicalAttack'', 2), (''magicalAttack'', 2)],
                   se_duration := Some 2\<rparr>"

definition chargeSpell :: "real \<Rightarrow> spellEffect" where
  "chargeSpell magicPower =
     noSpellFields\<lparr>se_prepareEffect := Some \<lparr>prep_name = ''Charging Spell'', prep_turns = 1,
                                             prep_damage = 35 * magicPower, prep_areaEffect = True,
                                             prep_stunChance = 2 / 10\<rparr>,
                   se_chargeBonus := Some (5 * magicPower), se_duration := Some 1\<rparr>"

definition shieldSpell :: "real \<Rightarrow> spellEffect" where
  "shieldSpell magicPower =
     noSpellFields\<lparr>se_statChanges := Some [(''physicalDefense'', 8), (''magicalDefense'', 8), (''maxHealth'', 15)],
                   se_healing := Some (15 * magicPower), se_damageReduction := Some (15 / 100),
                   se_duration := Some 3\<rparr>"

definition echoSpell :: spellEffect where
  "echoSpell =
     noSpellFields\<lparr>se_statChanges := Some [(''initiative'', 5), (''dodgeChance'', 3), (''criticalChance'', 3)],
                   se_healthOverTime := Some 3, se_duration := Some 3\<rparr>"

definition spellBaseEffects :: "real \<Rightarrow> (string \<times> spellEffect) list" where
  "spellBaseEffects magicPower =
     [(''energy'', noSpellFields\<lparr>se_damage := Some (20 * magicPower), se_criticalChance := Some 15,
                                 se_armorPiercing := Some True, se_duration := Some 0\<rparr>),
      (''strength'', drainSpell magicPower),
      (''magic'', chargeSpell magicPower),
      (''stamina'', shieldSpell magicPower),
      (''speed'', echoSpell)]"

text \<open>\<^verbatim>\<open>baseEffects[type] || { damage: 10 * magicPower, duration: 2 }\<close>.\<close>

definition spellBaseEffect :: "real \<Rightarrow> string \<Rightarrow> spellEffect" where
  "spellBaseEffect magicPower ty =
     (case map_of (spellBaseEffects magicPower) ty of
        Some e \<Rightarrow> e
      | None \<Rightarrow>
          if ty \<in> set inheritedNames then noSpellFields
          else noSpellFields\<lparr>se_damage := Some (10 * magicPower), se_duration := Some 2\<rparr>)"

definition getSpellEffect :: "spell option \<Rightarrow> real \<Rightarrow> spellEffect option" where
  "getSpellEffect s casterMagic =
     (case s of
        None \<Rightarrow> Some (noSpellFields\<lparr>se_damage := Some 5, se_duration := Some 1\<rparr>)
      | Some sp \<Rightarrow>
          if truthy_str (spell_effect sp) \<and> truthy_str (spell_type sp) then
            (let eff = the (spell_effect sp);
                 ty = the (spell_type sp);
                 magicPower = 1 + casterMagic * (15 / 100);
                 baseEffect = spellBaseEffect magicPower ty
             in if eff = ''Surge'' then
                  (if ty = ''energy'' then
                     Some (noSpellFields\<lparr>se_damage := Some (25 * magicPower), se_criticalChance := Some 15,
                                         se_armorPiercing := Some True, se_duration := Some 0\<rparr>)
                   else
                     Some (noSpellFields\<lparr>se_damage := Some (num_or (se_damage baseEffect) 15 * (25 / 10)),
                                         se_criticalChance := Some 15,
                                         se_armorPiercing := Some True, se_duration := Some 0\<rparr>))
                else if eff = ''Shield'' then
                  (if ty = ''stamina'' then Some (shieldSpell magicPower)
                   else
                     Some (noSpellFields\<lparr>se_statChanges := Some [(''physicalDefense'', 12), (''magicalDefense'', 12),
                                                                 (''maxHealth'', 20)],
                                         se_healing := Some (15 * magicPower),
                                         se_damageReduction := Some (2 / 10), se_duration := Some 3\<rparr>))
                else if eff = ''Echo'' then
                  (if ty = ''speed'' then Some echoSpell
                   else
                     Some (noSpellFields\<lparr>se_healthOverTime :=
                                           Some (if truthy_num (se_healing baseEffect) then
                                                   js_round (num_or (se_healing baseEffect) 0 / 3 * magicPower)
                                                 else if truthy_num (se_damage baseEffect) then
                                                   js_round (- (num_or (se_damage baseEffect) 0 / 3) * magicPower)
                                                 else 0),
                                         se_statChanges :=
                                           Some (mapValues (\<lambda>v. js_round (v * (3 / 10))) (se_statChanges baseEffect)),
                                         se_duration := Some 3\<rparr>))
                else if eff = ''Drain'' then Some (drainSpell magicPower)
                else if eff = ''Charge'' then Some (chargeSpell magicPower)
                else
                  Some (baseEffect\<lparr>se_damage := Some (num_or (se_damage baseEffect) 0 * (12 / 10)),
                                   se_healing := Some (num_or (se_healing baseEffect) 0 * (12 / 10)),
                                   se_statChanges :=
                                     (case se_statChanges baseEffect of
                                        None \<Rightarrow> None
                                      | Some t \<Rightarrow> Some (mapValues (\<lambda>v. js_round (v * (115 / 100))) (Some t)))\<rparr>))
          else Some (noSpellFields\<lparr>se_damage := Some 5, se_duration := Some 1\<rparr>))"

text \<open>
  \<^verbatim>\<open>calculateEffectPower(item, casterStats, difficulty)\<close> reads of \<open>item\<close> only
  \<^verbatim>\<open>item.spell_type\<close>, which a tool does not have. \<^verbatim>\<open>casterStats\<close> is a table of
  numbers. For a \<^verbatim>\<open>spell_type\<close> that the table has no entry for and that names an
  inherited member, \<^verbatim>\<open>casterStats[item.spell_type]\<close> is that member, a function or an
  object: it is truthy, the fallback \<^verbatim>\<open>|| 5\<close> is not taken, and the product is
  \<^verbatim>\<open>NaN\<close>. The result is a number or \<^verbatim>\<open>NaN\<close>.
\<close>

datatype jsnum = Num real | NotANumber

datatype item = ToolItem tool | SpellItem spell

definition item_spell_type :: "item \<Rightarrow> string option" where
  "item_spell_type it = (case it of ToolItem _ \<Rightarrow> None | SpellItem sp \<Rightarrow> spell_type sp)"

definition calculateEffectPower :: "item \<Rightarrow> numtable option \<Rightarrow> string \<Rightarrow> jsnum" where
  "calculateEffectPower it casterStats difficulty =
     (let p1 = (if difficulty = ''easy'' then 1 * (9 / 10)
                else if difficulty = ''medium'' then 1 * 1
                else if difficulty = ''hard'' then 1 * (11 / 10)
                else if difficulty = ''expert'' then 1 * (12 / 10)
                else 1)
      in case casterStats of
           None \<Rightarrow> Num p1
         | Some cs \<Rightarrow>
             if truthy_str (item_spell_type it) then
               (if table_get cs (the (item_spell_type it)) = None
                   \<and> the (item_spell_type it) \<in> set inheritedNames
                then NotANumber
                else Num (p1 * (1 + (num_or (table_get cs (the (item_spell_type it))) 5 - 5) * (5 / 100))))
             else Num p1)"

subsection \<open>battleCore.js: applyTool\<close>

text \<open>\<^verbatim>\<open>Math.min(Math.abs(value), cap) * Math.sign(value)\<close>, then
  \<^verbatim>\<open>Math.round(cappedValue * Math.min(basePowerMultiplier, 1.5))\<close>.\<close>

definition cappedValue :: "real \<Rightarrow> real \<Rightarrow> real" where
  "cappedValue cap v = min \<bar>v\<bar> cap * sgn v"

definition scaleStat :: "real \<Rightarrow> real \<Rightarrow> real \<Rightarrow> real" where
  "scaleStat cap m v = js_round (cappedValue cap v * min m (15 / 10))"

definition powerLevelOf :: "real \<Rightarrow> string" where
  "powerLevelOf m = (if m \<ge> 13 / 10 then ''strong'' else if m \<ge> 11 / 10 then ''normal'' else ''weak'')"

text \<open>\<^verbatim>\<open>s || d\<close> on an optional string.\<close>

definition str_or :: "string option \<Rightarrow> string \<Rightarrow> string" where
  "str_or v d = (case v of None \<Rightarrow> d | Some s \<Rightarrow> if s = [] then d else s)"

text \<open>The scaled copy of the tool effect.\<close>

definition scaleToolEffect :: "real \<Rightarrow> toolEffect \<Rightarrow> toolEffect" where
  "scaleToolEffect m te =
     te\<lparr>te_statChanges := Some (mapValues (scaleStat 10 m) (te_statChanges te)),
        te_healthChange :=
          Some (if truthy_num (te_healthChange te) then js_round (min (num_or (te_healthChange te) 0 * m) 50)
                else 0),
        te_healthOverTime :=
          Some (if truthy_num (te_healthOverTime te) then js_round (num_or (te_healthOverTime te) 0 * m)
                else 0),
        te_duration :=
          Some (case te_duration te of None \<Rightarrow> 1 | Some n \<Rightarrow> if n = 0 then 1 else n)\<rparr>"

text \<open>The active effect a tool leaves on the creature; \<open>i\<close> is the value of
  \<^verbatim>\<open>Date.now() + Math.random()\<close>.\<close>

definition toolActiveEffect :: "real \<Rightarrow> tool \<Rightarrow> toolEffect \<Rightarrow> toolEffect \<Rightarrow> real \<Rightarrow> int \<Rightarrow> effect" where
  "toolActiveEffect i t te scaled m currentT =
     (let e = \<lparr>effect_id = i, effect_name = str_or (tool_name t) ''Tool'' @ '' Effect'',
               etype = str_or (tool_type t) ''enhancement'',
               duration = (case te_duration scaled of None \<Rightarrow> 0 | Some n \<Rightarrow> n),
               statModifications = Some (entries (te_statChanges scaled)),
               healthOverTime = Some (num_or (te_healthOverTime scaled) 0),
               startTurn = Some currentT, effectType = tool_effect t,
               powerLevel = Some (powerLevelOf m), chargeEffect = None\<rparr>
      in case te_chargeEffect te of
           None \<Rightarrow> e
         | Some ce \<Rightarrow>
             if tool_effect t = Some ''Charge'' then
               e\<lparr>etype := ''charge'',
                 chargeEffect := Some (ce\<lparr>perTurnBonus := js_round (perTurnBonus ce * m),
                                          finalBurst := js_round (finalBurst ce * m)\<rparr>)\<rparr>
             else e)"

text \<open>The result is the pair \<^verbatim>\<open>{updatedCreature, toolEffect}\<close>. A tool has no
  \<^verbatim>\<open>spell_type\<close>, so its multiplier is a number (lemma \<open>toolPower_number\<close> below) and
  the case \<open>NotANumber\<close> is never taken.\<close>

definition applyTool ::
  "(creature \<Rightarrow> battleStats) \<Rightarrow> real \<Rightarrow> creature option \<Rightarrow> tool option \<Rightarrow> string \<Rightarrow> int \<Rightarrow>
   creature option \<times> toolEffect option" where
  "applyTool cds i cr tl0 difficulty currentT =
     (case (cr, tl0, Option.bind cr battleStats) of
        (Some c, Some t, Some bs) \<Rightarrow>
          (let clone0 = c\<lparr>currentTurn := Some currentT\<rparr>
           in case calculateEffectPower (ToolItem t) (stats c) difficulty of
                NotANumber \<Rightarrow> (cr, None)
              | Num basePowerMultiplier \<Rightarrow>
                  (case getToolEffect (Some t) of
                     None \<Rightarrow> (cr, None)
                   | Some te \<Rightarrow>
                       (let scaled = scaleToolEffect basePowerMultiplier te;
                            bs1 = foldl applyMod bs (entries (te_statChanges scaled));
                            clone1 = clone0\<lparr>battleStats := Some bs1\<rparr>;
                            clone2 =
                              (if (case te_duration scaled of None \<Rightarrow> False | Some n \<Rightarrow> n > 0) then
                                 clone1\<lparr>activeEffects :=
                                     Some (effectsOf clone1 @
                                           [Some (toolActiveEffect i t te scaled basePowerMultiplier currentT)])\<rparr>
                               else clone1);
                            clone3 =
                              (if truthy_num (te_healthChange scaled) \<and> num_or (te_healthChange scaled) 0 > 0 then
                                 clone2\<lparr>currentHealth :=
                                     min (currentHealth clone2 + num_or (te_healthChange scaled) 0) (maxHealth bs1)\<rparr>
                               else clone2)
                        in case recalculateDerivedStats cds clone3 of
                             (newStats, clone4) \<Rightarrow> (Some (clone4\<lparr>battleStats := newStats\<rparr>), Some scaled))))
      | _ \<Rightarrow> (cr, None))"

subsection \<open>battleCore.js: applySpell\<close>

definition scaleSpellEffect :: "real \<Rightarrow> spellEffect \<Rightarrow> spellEffect" where
  "scaleSpellEffect m se =
     se\<lparr>se_damage :=
          Some (if truthy_num (se_damage se) then js_round (min (num_or (se_damage se) 0 * m) 100) else 0),
        se_healing :=
          Some (if truthy_num (se_healing se) then js_round (min (num_or (se_healing se) 0 * m) 80) else 0),
        se_selfHeal :=
          Some (if truthy_num (se_selfHeal se) then js_round (min (num_or (se_selfHeal se) 0 * m) 40) else 0),
        se_healthOverTime :=
          Some (if truthy_num (se_healthOverTime se) then js_round (num_or (se_healthOverTime se) 0 * m) else 0),
        se_statChanges := Some (mapValues (scaleStat 12 m) (se_statChanges se))\<rparr>"

text \<open>One round of the stat-drain loop on the pair (target \<^verbatim>\<open>battleStats\<close>, caster
  \<^verbatim>\<open>battleStats\<close>). Reading \<^verbatim>\<open>casterClone.battleStats[stat]\<close> throws when the caster has
  no \<^verbatim>\<open>battleStats\<close>.\<close>

definition drainStep ::
  "numtable \<Rightarrow> (battleStats \<times> battleStats option) option \<Rightarrow> string \<times> real \<Rightarrow>
   (battleStats \<times> battleStats option) option" where
  "drainStep gain acc kv =
     (case acc of
        None \<Rightarrow> None
      | Some (tb, cbo) \<Rightarrow>
          (case getStat tb (fst kv) of
             None \<Rightarrow> Some (tb, cbo)
           | Some tv \<Rightarrow>
               (case cbo of
                  None \<Rightarrow> None
                | Some cb \<Rightarrow>
                    (case getStat cb (fst kv) of
                       None \<Rightarrow> Some (tb, cbo)
                     | Some cv \<Rightarrow>
                         Some (setStat tb (fst kv) (max 0 (tv + snd kv)),
                               Some (setStat cb (fst kv) (cv + num_or (table_get gain (fst kv)) 0)))))))"

definition spellActiveEffect :: "real \<Rightarrow> spell \<Rightarrow> spellEffect \<Rightarrow> spellEffect \<Rightarrow> real \<Rightarrow> int \<Rightarrow> effect" where
  "spellActiveEffect i sp se scaled m currentT =
     \<lparr>effect_id = i, effect_name = str_or (spell_name sp) ''Spell'' @ '' Effect'',
      etype = (if spell_effect sp = Some ''Charge'' \<and> se_prepareEffect se \<noteq> None then ''charge''
               else str_or (spell_type sp) ''magic''),
      duration = (case se_duration se of None \<Rightarrow> 0 | Some n \<Rightarrow> n),
      statModifications = Some (entries (se_statChanges scaled)),
      healthOverTime = Some (num_or (se_healthOverTime scaled) 0),
      startTurn = Some currentT, effectType = spell_effect sp,
      powerLevel = Some (powerLevelOf m), chargeEffect = None\<rparr>"

text \<open>
  The two clones and the scaled effect, as the blocks of \<^verbatim>\<open>applySpell\<close> update them
  one after the other. A block that reads a stat of a creature without \<^verbatim>\<open>battleStats\<close>
  throws, which is the step result \<open>None\<close>.
\<close>

record spellState =
  sp_caster :: creature
  sp_target :: creature
  sp_effect :: spellEffect

text \<open>``Apply direct damage with critical chance''; \<open>rnd\<close> is the value of
  \<^verbatim>\<open>Math.random()\<close>.\<close>

definition spellDamageStep :: "real \<Rightarrow> real \<Rightarrow> real \<Rightarrow> spellState \<Rightarrow> spellState" where
  "spellDamageStep m casterMagic rnd st =
     (let dmg = num_or (se_damage (sp_effect st)) 0
      in if dmg \<noteq> 0 then
           (let critChance = min (3 + js_floor (casterMagic * (3 / 10))) 15;
                isCritical = (rnd * 100 \<le> critChance);
                fd1 = (if isCritical then js_round (dmg * (15 / 10)) else dmg);
                fd2 = (if se_armorPiercing (sp_effect st) = Some True \<or> m \<ge> 13 / 10 then
                         fd1 + js_round (fd1 * (2 / 10))
                       else fd1)
            in st\<lparr>sp_target := (sp_target st)\<lparr>currentHealth := max 0 (currentHealth (sp_target st) - fd2)\<rparr>,
                  sp_effect := (sp_effect st)\<lparr>se_actualDamage := Some fd2, se_wasCritical := Some isCritical\<rparr>\<rparr>)
         else st)"

text \<open>``Apply healing effects''.\<close>

definition spellHealStep :: "spellState \<Rightarrow> spellState option" where
  "spellHealStep st =
     (if truthy_num (se_healing (sp_effect st)) \<and> creature_id (sp_caster st) = creature_id (sp_target st) then
        (case battleStats (sp_target st) of
           None \<Rightarrow> None
         | Some tb \<Rightarrow>
             Some (st\<lparr>sp_target := (sp_target st)\<lparr>currentHealth :=
                         min (currentHealth (sp_target st) + num_or (se_healing (sp_effect st)) 0)
                             (maxHealth tb)\<rparr>\<rparr>))
      else Some st)"

text \<open>``Apply self healing for drain spells''.\<close>

definition spellSelfHealStep :: "spellState \<Rightarrow> spellState option" where
  "spellSelfHealStep st =
     (if truthy_num (se_selfHeal (sp_effect st)) \<and> creature_id (sp_caster st) \<noteq> creature_id (sp_target st) then
        (case battleStats (sp_caster st) of
           None \<Rightarrow> None
         | Some cb \<Rightarrow>
             Some (st\<lparr>sp_caster := (sp_caster st)\<lparr>currentHealth :=
                         min (currentHealth (sp_caster st) + num_or (se_selfHeal (sp_effect st)) 0)
                             (maxHealth cb)\<rparr>\<rparr>))
      else Some st)"

text \<open>``Apply immediate stat changes''.\<close>

definition spellStatChangeStep :: "spellState \<Rightarrow> spellState option" where
  "spellStatChangeStep st =
     (if entries (se_statChanges (sp_effect st)) = [] then Some st
      else
        (case battleStats (sp_target st) of
           None \<Rightarrow> None
         | Some tb \<Rightarrow>
             Some (st\<lparr>sp_target := (sp_target st)\<lparr>battleStats :=
                         Some (foldl applyMod tb (entries (se_statChanges (sp_effect st))))\<rparr>\<rparr>)))"

text \<open>``Apply stat drain effects (from target to caster)''.\<close>

definition spellDrainStep :: "spellState \<Rightarrow> spellState option" where
  "spellDrainStep st =
     (case (se_statDrain (sp_effect st), se_statGain (sp_effect st)) of
        (Some drain, Some gain) \<Rightarrow>
          if drain = [] then Some st
          else
            (case battleStats (sp_target st) of
               None \<Rightarrow> None
             | Some tb \<Rightarrow>
                 (case foldl (drainStep gain) (Some (tb, battleStats (sp_caster st))) drain of
                    None \<Rightarrow> None
                  | Some (tb2, cb2) \<Rightarrow>
                      Some (st\<lparr>sp_target := (sp_target st)\<lparr>battleStats := Some tb2\<rparr>,
                               sp_caster := (sp_caster st)\<lparr>battleStats := cb2\<rparr>\<rparr>)))
      | _ \<Rightarrow> Some st)"

text \<open>``Add active effect with detailed tracking''; \<open>se\<close> is the unscaled effect, whose
  duration decides.\<close>

definition spellAddEffectStep :: "real \<Rightarrow> spell \<Rightarrow> spellEffect \<Rightarrow> real \<Rightarrow> int \<Rightarrow> spellState \<Rightarrow> spellState" where
  "spellAddEffectStep i sp se m currentT st =
     (if (case se_duration se of None \<Rightarrow> False | Some n \<Rightarrow> n > 0) then
        st\<lparr>sp_target := (sp_target st)\<lparr>activeEffects :=
              Some (effectsOf (sp_target st) @ [Some (spellActiveEffect i sp se (sp_effect st) m currentT)])\<rparr>\<rparr>
      else st)"

text \<open>``Recalculate derived stats after spell effects''.\<close>

definition spellRecalcStep :: "(creature \<Rightarrow> battleStats) \<Rightarrow> spellState \<Rightarrow> spellState" where
  "spellRecalcStep cds st =
     (if entries (se_statChanges (sp_effect st)) \<noteq> [] then
        (case recalculateDerivedStats cds (sp_target st) of
           (newStats, t1) \<Rightarrow> st\<lparr>sp_target := t1\<lparr>battleStats := newStats\<rparr>\<rparr>)
      else st)"

text \<open>The blocks of \<^verbatim>\<open>applySpell\<close> for the multiplier \<open>m\<close>, from the scaled copy of the
  effect to the recalculation. \<open>i\<close> is the value of \<^verbatim>\<open>Date.now() + Math.random()\<close> and
  \<open>rnd\<close> the value of \<^verbatim>\<open>Math.random()\<close> in the critical-hit roll.\<close>

definition spellBlocks ::
  "(creature \<Rightarrow> battleStats) \<Rightarrow> real \<Rightarrow> real \<Rightarrow> real \<Rightarrow> spell \<Rightarrow> spellEffect \<Rightarrow> real \<Rightarrow> int \<Rightarrow>
   creature \<Rightarrow> creature \<Rightarrow> spellState option" where
  "spellBlocks cds i rnd casterMagic sp se m currentT ca ta =
     Option.bind
       (Option.bind
         (Option.bind
           (Option.bind
             (Some (spellDamageStep m casterMagic rnd
                      \<lparr>sp_caster = ca\<lparr>currentTurn := Some currentT\<rparr>,
                       sp_target = ta\<lparr>currentTurn := Some currentT\<rparr>,
                       sp_effect = scaleSpellEffect m se\<rparr>))
             spellHealStep)
           spellSelfHealStep)
         spellStatChangeStep)
       (\<lambda>st. map_option (\<lambda>st1. spellRecalcStep cds (spellAddEffectStep i sp se m currentT st1))
                 (spellDrainStep st))"

text \<open>
  What a call of \<^verbatim>\<open>applySpell\<close> does: it throws a \<^verbatim>\<open>TypeError\<close>; or it returns the
  triple \<^verbatim>\<open>{updatedCaster, updatedTarget, spellEffect}\<close>; or, under a multiplier that is
  \<^verbatim>\<open>NaN\<close>, it returns a triple in which the numbers scaled by the multiplier are
  \<^verbatim>\<open>NaN\<close>, which is the outcome \<open>ReturnsNaN\<close>: the numbers of the model are reals,
  and it does not follow that triple further.
\<close>

datatype spellOutcome =
  Throws
  | ReturnsNaN
  | Returns "creature option \<times> creature option \<times> spellEffect option"

definition spellResult :: "spellState option \<Rightarrow> spellOutcome" where
  "spellResult r =
     (case r of
        None \<Rightarrow> Throws
      | Some st \<Rightarrow> Returns (Some (sp_caster st), Some (sp_target st), Some (sp_effect st)))"

text \<open>The base effect has a number that the scaled copy multiplies by the multiplier: a
  truthy \<^verbatim>\<open>damage\<close>, \<^verbatim>\<open>healing\<close>, \<^verbatim>\<open>selfHeal\<close> or \<^verbatim>\<open>healthOverTime\<close>, or an entry of
  \<^verbatim>\<open>statChanges\<close>.\<close>

definition usesMultiplier :: "spellEffect \<Rightarrow> bool" where
  "usesMultiplier se =
     (truthy_num (se_damage se) \<or> truthy_num (se_healing se) \<or> truthy_num (se_selfHeal se)
      \<or> truthy_num (se_healthOverTime se) \<or> entries (se_statChanges se) \<noteq> [])"

text \<open>
  Under the multiplier \<^verbatim>\<open>NaN\<close>, a base effect with a number to scale gives a scaled copy
  with \<^verbatim>\<open>NaN\<close> in it. \<^verbatim>\<open>NaN\<close> is falsy, so the damage, healing and self-heal blocks
  are skipped; the stat-change block writes \<^verbatim>\<open>NaN\<close> into the target's stats; the
  stat-drain block runs on the unscaled \<^verbatim>\<open>statDrain\<close> and \<^verbatim>\<open>statGain\<close> and is the only
  one that can throw. A base effect with no number to scale has the scaled numbers 0 and
  an empty \<^verbatim>\<open>statChanges\<close> whatever the multiplier is, and both
  \<^verbatim>\<open>basePowerMultiplier >= 1.3\<close> and \<^verbatim>\<open>basePowerMultiplier >= 1.1\<close> are false for
  \<^verbatim>\<open>NaN\<close> as they are for 0: the blocks run as they do for the multiplier 0.
\<close>

definition applySpell ::
  "(creature \<Rightarrow> battleStats) \<Rightarrow> real \<Rightarrow> real \<Rightarrow> creature option \<Rightarrow> creature option \<Rightarrow> spell option \<Rightarrow>
   string \<Rightarrow> int \<Rightarrow> spellOutcome" where
  "applySpell cds i rnd caster target sp0 difficulty currentT =
     (case (caster, target, sp0, Option.bind caster stats, Option.bind target battleStats) of
        (Some ca, Some ta, Some sp, Some cstats, Some tbs) \<Rightarrow>
          (let casterMagic = num_or (table_get cstats ''magic'') 5
           in case getSpellEffect (Some sp) casterMagic of
                None \<Rightarrow> Returns (caster, target, None)
              | Some se \<Rightarrow>
                  (case calculateEffectPower (SpellItem sp) (Some cstats) difficulty of
                     Num m \<Rightarrow> spellResult (spellBlocks cds i rnd casterMagic sp se m currentT ca ta)
                   | NotANumber \<Rightarrow>
                       if usesMultiplier se then
                         (case spellDrainStep \<lparr>sp_caster = ca\<lparr>currentTurn := Some currentT\<rparr>,
                                               sp_target = ta\<lparr>currentTurn := Some currentT\<rparr>,
                                               sp_effect = se\<rparr> of
                            None \<Rightarrow> Throws
                          | Some st \<Rightarrow> ReturnsNaN)
                       else spellResult (spellBlocks cds i rnd casterMagic sp se 0 currentT ca ta)))
      | _ \<Rightarrow> Returns (caster, target, None))"

section \<open>Notions used in the statements\<close>

text \<open>The effect the callback of \<^verbatim>\<open>activeEffects.map\<close> returns for one entry of the
  array: what \<^verbatim>\<open>processTimedEffect\<close> gives, with the duration forced to 0 when a charge
  fires its burst and lowered by one otherwise.\<close>

definition effectAfterTick :: "int \<Rightarrow> effect option \<Rightarrow> effect option" where
  "effectAfterTick currentT eo =
     (case eo of
        None \<Rightarrow> None
      | Some eff \<Rightarrow>
          (let pe = processTimedEffect eff currentT (startOf eff)
           in case (if etype pe = ''charge'' then chargeEffect pe else None) of
                None \<Rightarrow> Some (pe\<lparr>duration := duration pe - 1\<rparr>)
              | Some ce \<Rightarrow>
                  if min (real_of_int (currentT - startOf pe) /
                          real_of_int (if maxTurns ce = 0 then 3 else maxTurns ce)) 1 \<ge> 1
                     \<and> finalBurst ce \<noteq> 0
                  then Some (pe\<lparr>duration := 0\<rparr>)
                  else Some (pe\<lparr>duration := duration pe - 1\<rparr>)))"

text \<open>An entry of \<^verbatim>\<open>activeEffects\<close> is the effect with id \<open>i\<close>.\<close>

definition hasId :: "real \<Rightarrow> effect option \<Rightarrow> bool" where
  "hasId i eo = (case eo of None \<Rightarrow> False | Some e \<Rightarrow> effect_id e = i)"

text \<open>Successive ticks of one creature, one per (difficulty, turn) of the list.\<close>

definition ticks :: "(creature \<Rightarrow> battleStats) \<Rightarrow> (string \<times> int) list \<Rightarrow> creature \<Rightarrow> creature" where
  "ticks cds ds c = foldl (\<lambda>c1 dt. tickCreature cds (fst dt) (snd dt) c1) c ds"

text \<open>The \<^verbatim>\<open>type\<close> tags of a creature's active effects, in order.\<close>

definition effectTypes :: "creature \<Rightarrow> string option list" where
  "effectTypes c = map (map_option etype) (effectsOf c)"

text \<open>The health of a creature next to the \<^verbatim>\<open>maxHealth\<close> of its \<^verbatim>\<open>battleStats\<close>.\<close>

definition healthAndMax :: "creature \<Rightarrow> real \<times> real option" where
  "healthAndMax c = (currentHealth c, map_option maxHealth (battleStats c))"

text \<open>The ally trigger of a defeated creature, as the \<^verbatim>\<open>if / else if / else if\<close> chain
  selects it: at most one effect.\<close>

definition allyTrigger :: "creature \<Rightarrow> real \<Rightarrow> creature \<Rightarrow> effect list" where
  "allyTrigger dead i ally =
     (if rarity dead = ''Legendary'' then [finalGift dead i ally]
      else if (case specialty_stats dead of None \<Rightarrow> False | Some sp \<Rightarrow> ''energy'' \<in> set sp) then
        [energyRelease i ally]
      else if rarity dead = ''Epic'' then [epicEssence i ally]
      else [])"

text \<open>The revenge trigger of a defeated creature on one opposing creature.\<close>

definition revengeTrigger :: "creature \<Rightarrow> real \<Rightarrow> creature \<Rightarrow> effect list" where
  "revengeTrigger dead i enemy =
     (if rarity dead = ''Legendary'' \<or> rarity dead = ''Epic'' then [guiltyConscience i enemy] else [])"

text \<open>The inputs on which \<^verbatim>\<open>applyTool\<close> and \<^verbatim>\<open>applySpell\<close> take a validation branch.\<close>

definition toolInputInvalid :: "creature option \<Rightarrow> tool option \<Rightarrow> bool" where
  "toolInputInvalid cr t = (cr = None \<or> t = None \<or> Option.bind cr battleStats = None)"

definition spellInputInvalid :: "creature option \<Rightarrow> creature option \<Rightarrow> spell option \<Rightarrow> bool" where
  "spellInputInvalid caster target sp =
     (caster = None \<or> target = None \<or> sp = None \<or> Option.bind caster stats = None
      \<or> Option.bind target battleStats = None)"

text \<open>The triple a call of \<^verbatim>\<open>applySpell\<close> returns, when the model follows it.\<close>

definition returned :: "spellOutcome \<Rightarrow> (creature option \<times> creature option \<times> spellEffect option) option" where
  "returned r = (case r of Returns x \<Rightarrow> Some x | _ \<Rightarrow> None)"

text \<open>A tool without \<^verbatim>\<open>tool_effect\<close> or \<^verbatim>\<open>tool_type\<close>, a spell without \<^verbatim>\<open>spell_effect\<close>
  or \<^verbatim>\<open>spell_type\<close> (undefined, null or the empty string).\<close>

definition toolLacksTag :: "tool \<Rightarrow> bool" where
  "toolLacksTag t = (\<not> (truthy_str (tool_effect t) \<and> truthy_str (tool_type t)))"

definition spellLacksTag :: "spell \<Rightarrow> bool" where
  "spellLacksTag sp = (\<not> (truthy_str (spell_effect sp) \<and> truthy_str (spell_type sp)))"

text \<open>What identifies an active effect apart from its id and its start turn: its name,
  its \<^verbatim>\<open>type\<close>, its duration and its stat modifications.\<close>

type_synonym shape = "string \<times> string \<times> int \<times> numtable option"

definition effectShape :: "effect \<Rightarrow> shape" where
  "effectShape e = (effect_name e, etype e, duration e, statModifications e)"

definition shapesOf :: "creature \<Rightarrow> shape option list" where
  "shapesOf c = map (map_option effectShape) (effectsOf c)"

text \<open>The shapes of the ally trigger and of the revenge trigger of a defeated creature;
  they depend on neither the id nor the creature that receives the effect.\<close>

definition allyShapes :: "creature \<Rightarrow> shape option list" where
  "allyShapes dead = map (\<lambda>e. Some (effectShape e)) (allyTrigger dead 0 dead)"

definition revengeShapes :: "creature \<Rightarrow> shape option list" where
  "revengeShapes dead = map (\<lambda>e. Some (effectShape e)) (revengeTrigger dead 0 dead)"

definition defeated :: "creature \<Rightarrow> bool" where
  "defeated c = (\<not> currentHealth c > 0)"

text \<open>The effects of the survivors of a field, in field order: a survivor has the effects
  it had, followed by the ally triggers of the defeated creatures that come after it in
  the field, in their order.\<close>

fun survivorShapes :: "creature list \<Rightarrow> shape option list list" where
  "survivorShapes [] = []"
| "survivorShapes (c # cs) =
     (if currentHealth c > 0 then
        (shapesOf c @ concat (map allyShapes (filter defeated cs))) # survivorShapes cs
      else survivorShapes cs)"

text \<open>The five effect tags \<^verbatim>\<open>getToolEffect\<close> and \<^verbatim>\<open>getSpellEffect\<close> have a case for.\<close>

definition effectTags :: "string list" where
  "effectTags = [''Surge'', ''Shield'', ''Echo'', ''Drain'', ''Charge'']"

text \<open>The four fields of a spell effect that \<^verbatim>\<open>applySpell\<close> caps.\<close>

definition cappedFields :: "spellEffect \<Rightarrow> real option \<times> real option \<times> real option \<times> numtable option" where
  "cappedFields e = (se_damage e, se_healing e, se_selfHeal e, se_statChanges e)"

section \<open>Concrete inputs\<close>

definition exStats :: battleStats where
  "exStats = \<lparr>physicalAttack = 40, magicalAttack = 30, physicalDefense = 40, magicalDefense = 30,
     maxHealth = 50, initiative = 10, criticalChance = 5, dodgeChance = 5, energyCost = 3\<rparr>"

text \<open>A stand-in for \<^verbatim>\<open>calculateDerivedStats\<close>: every creature derives \<open>exStats\<close>.\<close>

definition exDerive :: "creature \<Rightarrow> battleStats" where
  "exDerive c = exStats"

definition exCreature :: creature where
  "exCreature = \<lparr>creature_id = ''c1'', species_name = ''Wisp'', rarity = ''Common'', form = 0,
     stats = Some [(''energy'', 5), (''strength'', 5), (''magic'', 5), (''stamina'', 5), (''speed'', 5)],
     specialty_stats = Some [], battleStats = Some exStats, currentHealth = 50,
     activeEffects = Some [], permanentModifications = None, combination_level = None,
     isDefending = False, nextAttackBonus = None, currentTurn = None\<rparr>"

definition exAlly2 :: creature where
  "exAlly2 = exCreature\<lparr>creature_id := ''c2'', species_name := ''Drake''\<rparr>"

definition exAlly3 :: creature where
  "exAlly3 = exCreature\<lparr>creature_id := ''c3'', species_name := ''Golem''\<rparr>"

definition exEnemy :: creature where
  "exEnemy = exCreature\<lparr>creature_id := ''e1'', species_name := ''Imp''\<rparr>"

text \<open>A defeated Legendary creature whose specialty stats include energy.\<close>

definition exLegend :: creature where
  "exLegend = exCreature\<lparr>creature_id := ''c4'', species_name := ''Phoenix'', rarity := ''Legendary'',
     specialty_stats := Some [''energy''], currentHealth := 0\<rparr>"

text \<open>A caster with a high magic stat, and a creature for the recalculation: above its
  maximal health, with a combination level and a debuff.\<close>

definition exMage :: creature where
  "exMage = exCreature\<lparr>creature_id := ''m1'', species_name := ''Magus'',
     stats := Some [(''energy'', 5), (''strength'', 5), (''magic'', 30), (''stamina'', 5), (''speed'', 5)]\<rparr>"

definition exCombined :: creature where
  "exCombined = exCreature\<lparr>currentHealth := 80, combination_level := Some 2,
     activeEffects := Some [Some (guiltyConscience 9 exCreature)]\<rparr>"

definition exIds :: "nat \<Rightarrow> real" where
  "exIds k = real k"

definition shieldTool :: tool where
  "shieldTool = \<lparr>tool_name = Some ''Ledger Lens'', tool_effect = Some ''Shield'', tool_type = Some ''magic''\<rparr>"

definition drainTool :: tool where
  "drainTool = \<lparr>tool_name = Some ''Validator Core'', tool_effect = Some ''Drain'', tool_type = Some ''speed''\<rparr>"

definition chargeTool :: tool where
  "chargeTool = \<lparr>tool_name = Some ''Olympia Emblem'', tool_effect = Some ''Charge'', tool_type = Some ''stamina''\<rparr>"

text \<open>A tool that is present and has no \<^verbatim>\<open>tool_effect\<close>.\<close>

definition untaggedTool :: tool where
  "untaggedTool = \<lparr>tool_name = Some ''Relic'', tool_effect = None, tool_type = Some ''magic''\<rparr>"

text \<open>A tool and a spell whose category is the name of an inherited member and whose
  effect tag is none of the five.\<close>

definition inheritedTool :: tool where
  "inheritedTool = \<lparr>tool_name = Some ''Relic'', tool_effect = Some ''Boost'', tool_type = Some ''constructor''\<rparr>"

definition inheritedSpell :: spell where
  "inheritedSpell = \<lparr>spell_name = Some ''Hex'', spell_effect = Some ''Boost'', spell_type = Some ''constructor''\<rparr>"

text \<open>A Drain spell whose category is the name of an inherited member, and a spell that
  is present and has no \<^verbatim>\<open>spell_effect\<close>.\<close>

definition inheritedDrainSpell :: spell where
  "inheritedDrainSpell = \<lparr>spell_name = Some ''Hex'', spell_effect = Some ''Drain'', spell_type = Some ''constructor''\<rparr>"

definition untaggedSpell :: spell where
  "untaggedSpell = \<lparr>spell_name = Some ''Rune'', spell_effect = None, spell_type = Some ''magic''\<rparr>"

text \<open>A defeated Epic creature.\<close>

definition exEpic :: creature where
  "exEpic = exCreature\<lparr>creature_id := ''c5'', species_name := ''Hydra'', rarity := ''Epic'',
     currentHealth := 0\<rparr>"

definition shieldSpellItem :: spell where
  "shieldSpellItem = \<lparr>spell_name = Some ''Cerberus Chain'', spell_effect = Some ''Shield'', spell_type = Some ''stamina''\<rparr>"

text \<open>The creature after a Shield tool and a Drain tool on turn 0, and the field that
  holds it after the ticks of turns 1, 2 and 3.\<close>

definition afterShield :: creature where
  "afterShield = the (fst (applyTool exDerive 1 (Some exCreature) (Some shieldTool) ''medium'' 0))"

definition afterDrain :: creature where
  "afterDrain = the (fst (applyTool exDerive 2 (Some afterShield) (Some drainTool) ''medium'' 0))"

definition fieldTurn1 :: "creature option list" where
  "fieldTurn1 = applyOngoingEffects exDerive (Some [Some afterDrain]) ''medium'' 1"

definition fieldTurn2 :: "creature option list" where
  "fieldTurn2 = applyOngoingEffects exDerive (Some fieldTurn1) ''medium'' 2"

definition fieldTurn3 :: "creature option list" where
  "fieldTurn3 = applyOngoingEffects exDerive (Some fieldTurn2) ''medium'' 3"

text \<open>The creature after a Charge tool on turn 0, and after the ticks of turns 1, 2, 3.\<close>

definition charged :: creature where
  "charged = the (fst (applyTool exDerive 3 (Some exCreature) (Some chargeTool) ''medium'' 0))"

definition chargedTurn1 :: creature where
  "chargedTurn1 = tickCreature exDerive ''medium'' 1 charged"

definition chargedTurn2 :: creature where
  "chargedTurn2 = tickCreature exDerive ''medium'' 2 chargedTurn1"

definition chargedTurn3 :: creature where
  "chargedTurn3 = tickCreature exDerive ''medium'' 3 chargedTurn2"

text \<open>A two-turn debuff on a creature, for the expiry of effects.\<close>

definition exDebuff :: effect where
  "exDebuff = guiltyConscience 9 exCreature"

definition debuffed :: creature where
  "debuffed = pushEffect exCreature exDebuff"

text \<open>Stand-ins for \<^verbatim>\<open>calculateDamage\<close> (every attack is dodged) and
  \<^verbatim>\<open>calculateComboBonus\<close>.\<close>

definition exDodge :: "creature \<Rightarrow> creature \<Rightarrow> string \<Rightarrow> real \<Rightarrow> damageResult" where
  "exDodge a d ty m = \<lparr>dr_damage = 30, dr_isDodged = True, dr_isCritical = True,
     dr_effectiveness = ''effective'', dr_damageType = None, dr_actualDamage = None,
     dr_comboMultiplier = None\<rparr>"

definition exCombo :: "real \<Rightarrow> real" where
  "exCombo l = 1"

section \<open>The effect list across ticks\<close>

lemma fst_tickEffect: "fst (tickEffect d t r m st eo) = effectAfterTick t eo"
  by (simp add: tickEffect_def effectAfterTick_def Let_def split: option.splits)

lemma fst_mapState_tickEffect:
  "fst (mapState (tickEffect d t r m) st es) = map (effectAfterTick t) es"
proof (induction es arbitrary: st)
  case Nil
  show ?case by simp
next
  case (Cons x xs)
  obtain y st1 where a: "tickEffect d t r m st x = (y, st1)"
    by (cases "tickEffect d t r m st x")
  obtain ys st2 where b: "mapState (tickEffect d t r m) st1 xs = (ys, st2)"
    by (cases "mapState (tickEffect d t r m) st1 xs")
  have "y = effectAfterTick t x"
    using fst_tickEffect [of d t r m st x] a by simp
  moreover have "ys = map (effectAfterTick t) xs"
    using Cons.IH [of st1] b by simp
  ultimately show ?case using a b by simp
qed

lemma effectsOf_tickCreature:
  assumes "battleStats c \<noteq> None"
  shows "effectsOf (tickCreature cds d t c) = filter keepEffect (map (effectAfterTick t) (effectsOf c))"
proof -
  obtain bs where bs: "battleStats c = Some bs" using assms by auto
  let ?st0 = "\<lparr>ts_health = currentHealth c, ts_bonus = nextAttackBonus c, ts_mods = [], ts_modified = False\<rparr>"
  obtain es st where m: "mapState (tickEffect d t (rarity c) (maxHealth bs)) ?st0 (effectsOf c) = (es, st)"
    by (cases "mapState (tickEffect d t (rarity c) (maxHealth bs)) ?st0 (effectsOf c)")
  have "es = map (effectAfterTick t) (effectsOf c)"
    using fst_mapState_tickEffect [of d t "rarity c" "maxHealth bs" ?st0 "effectsOf c"] m by simp
  then show ?thesis using bs m
    by (simp add: tickCreature_def Let_def effectsOf_def)
qed

lemma battleStats_tickCreature:
  "battleStats c \<noteq> None \<Longrightarrow> battleStats (tickCreature cds d t c) \<noteq> None"
  by (auto simp: tickCreature_def Let_def split: option.splits prod.splits)

lemma hasId_effectAfterTick: "hasId i (effectAfterTick t eo) = hasId i eo"
  by (simp add: effectAfterTick_def hasId_def processTimedEffect_def Let_def split: option.splits)

lemma filter_hasId_tick:
  "filter (hasId i) (filter keepEffect (map (effectAfterTick t) es)) =
   filter keepEffect (map (effectAfterTick t) (filter (hasId i) es))"
  by (induction es) (auto simp: hasId_effectAfterTick)

lemma etype_processTimedEffect: "etype (processTimedEffect e t s) = etype e"
  by (simp add: processTimedEffect_def Let_def split: option.splits)

lemma duration_processTimedEffect: "duration (processTimedEffect e t s) = duration e"
  by (simp add: processTimedEffect_def Let_def split: option.splits)

lemma chargeEffect_processTimedEffect: "chargeEffect (processTimedEffect e t s) = chargeEffect e"
  by (simp add: processTimedEffect_def Let_def split: option.splits)

text \<open>An effect that is not a charge (its \<^verbatim>\<open>type\<close> is not \<^verbatim>\<open>'charge'\<close>, or it has no
  \<^verbatim>\<open>chargeEffect\<close>) loses one turn of duration in a tick and stays what it was.\<close>

lemma effectAfterTick_plain:
  assumes "etype e \<noteq> ''charge'' \<or> chargeEffect e = None"
  shows "\<exists>e'. effectAfterTick t (Some e) = Some e' \<and> duration e' = duration e - 1 \<and>
              etype e' = etype e \<and> chargeEffect e' = chargeEffect e"
  using assms
  by (auto simp: effectAfterTick_def Let_def etype_processTimedEffect duration_processTimedEffect
      chargeEffect_processTimedEffect)

lemma absent_stays_absent:
  "battleStats c \<noteq> None \<Longrightarrow> filter (hasId i) (effectsOf c) = [] \<Longrightarrow>
   filter (hasId i) (effectsOf (ticks cds ds c)) = []"
proof (induction ds arbitrary: c)
  case Nil
  then show ?case by (simp add: ticks_def)
next
  case (Cons dt ds)
  let ?c1 = "tickCreature cds (fst dt) (snd dt) c"
  have bs1: "battleStats ?c1 \<noteq> None"
    using Cons.prems(1) by (rule battleStats_tickCreature)
  have "filter (hasId i) (effectsOf ?c1) = []"
    using effectsOf_tickCreature [OF Cons.prems(1)] filter_hasId_tick Cons.prems(2) by simp
  from Cons.IH [OF bs1 this] show ?case by (simp add: ticks_def)
qed

lemma expiry_induct:
  "battleStats c \<noteq> None \<Longrightarrow> filter (hasId i) (effectsOf c) = [Some e] \<Longrightarrow>
   etype e \<noteq> ''charge'' \<or> chargeEffect e = None \<Longrightarrow>
   (int (length ds) < duration e \<longrightarrow>
      (\<exists>e'. filter (hasId i) (effectsOf (ticks cds ds c)) = [Some e'] \<and>
            duration e' = duration e - int (length ds))) \<and>
   (1 \<le> duration e \<and> duration e \<le> int (length ds) \<longrightarrow>
      filter (hasId i) (effectsOf (ticks cds ds c)) = [])"
proof (induction ds arbitrary: c e)
  case Nil
  then show ?case by (simp add: ticks_def)
next
  case (Cons dt ds)
  let ?c1 = "tickCreature cds (fst dt) (snd dt) c"
  have bs1: "battleStats ?c1 \<noteq> None"
    using Cons.prems(1) by (rule battleStats_tickCreature)
  have step: "ticks cds (dt # ds) c = ticks cds ds ?c1"
    by (simp add: ticks_def)
  obtain e' where e': "effectAfterTick (snd dt) (Some e) = Some e'" "duration e' = duration e - 1"
    "etype e' = etype e" "chargeEffect e' = chargeEffect e"
    using effectAfterTick_plain [OF Cons.prems(3)] by blast
  have f1: "filter (hasId i) (effectsOf ?c1) = filter keepEffect [Some e']"
    using effectsOf_tickCreature [OF Cons.prems(1)] filter_hasId_tick Cons.prems(2) e'(1) by simp
  show ?case
  proof (cases "duration e' > 0")
    case True
    then have g: "filter (hasId i) (effectsOf ?c1) = [Some e']"
      using f1 by (simp add: keepEffect_def)
    have ne: "etype e' \<noteq> ''charge'' \<or> chargeEffect e' = None"
      using e'(3,4) Cons.prems(3) by simp
    show ?thesis using Cons.IH [OF bs1 g ne] e'(2) True step by auto
  next
    case False
    then have g: "filter (hasId i) (effectsOf ?c1) = []"
      using f1 by (simp add: keepEffect_def)
    have "filter (hasId i) (effectsOf (ticks cds ds ?c1)) = []"
      using absent_stays_absent [OF bs1 g] .
    then show ?thesis using False e'(2) step by auto
  qed
qed

text \<open>
  Claim C7. Let \<open>e\<close> be the one effect with id \<open>i\<close> among the active effects of a
  creature that has \<^verbatim>\<open>battleStats\<close>, and let \<open>e\<close> not be a charge. After \<open>k\<close> ticks
  of the creature, whatever their turns and difficulties, with \<open>k\<close> below the duration
  \<open>N\<close> of \<open>e\<close>, the list still holds exactly one effect with id \<open>i\<close>, and its
  duration is \<open>N - k\<close>; after \<open>N\<close> ticks or more (for \<open>N \<ge> 1\<close>) the list holds
  none. So an effect of duration 1 is gone after the next tick.
\<close>

theorem effect_expiry:
  assumes "battleStats c \<noteq> None"
    and "filter (hasId i) (effectsOf c) = [Some e]"
    and "etype e \<noteq> ''charge'' \<or> chargeEffect e = None"
  shows "(int (length ds) < duration e \<longrightarrow>
           (\<exists>e'. filter (hasId i) (effectsOf (ticks cds ds c)) = [Some e'] \<and>
                 duration e' = duration e - int (length ds))) \<and>
         (1 \<le> duration e \<and> duration e \<le> int (length ds) \<longrightarrow>
           filter (hasId i) (effectsOf (ticks cds ds c)) = [])"
  using assms by (rule expiry_induct)

lemma debuffed_facts:
  "battleStats debuffed \<noteq> None" "filter (hasId 9) (effectsOf debuffed) = [Some exDebuff]"
  "etype exDebuff \<noteq> ''charge''" "duration exDebuff = 2"
  by (simp_all add: debuffed_def exDebuff_def pushEffect_def exCreature_def effectsOf_def hasId_def
      guiltyConscience_def)

theorem effect_expiry_witness:
  "battleStats debuffed \<noteq> None \<and> filter (hasId 9) (effectsOf debuffed) = [Some exDebuff] \<and>
   etype exDebuff \<noteq> ''charge'' \<and> duration exDebuff = 2 \<and>
   (\<exists>e'. filter (hasId 9) (effectsOf (ticks exDerive [(''medium'', 1)] debuffed)) = [Some e'] \<and>
         duration e' = 1) \<and>
   filter (hasId 9) (effectsOf (ticks exDerive [(''medium'', 1), (''hard'', 2)] debuffed)) = []"
proof -
  have ne: "etype exDebuff \<noteq> ''charge'' \<or> chargeEffect exDebuff = None"
    using debuffed_facts(3) by simp
  have one: "\<exists>e'. filter (hasId 9) (effectsOf (ticks exDerive [(''medium'', 1)] debuffed)) = [Some e'] \<and>
                  duration e' = 1"
    using effect_expiry [OF debuffed_facts(1) debuffed_facts(2) ne, of "[(''medium'', 1)]" exDerive]
      debuffed_facts(4) by simp
  have two: "filter (hasId 9) (effectsOf (ticks exDerive [(''medium'', 1), (''hard'', 2)] debuffed)) = []"
    using effect_expiry [OF debuffed_facts(1) debuffed_facts(2) ne, of "[(''medium'', 1), (''hard'', 2)]" exDerive]
      debuffed_facts(4) by simp
  show ?thesis using debuffed_facts one two by simp
qed

section \<open>Stat recalculation\<close>

lemma recalc_frame:
  assumes pure: "\<And>c h b. cds (c\<lparr>currentHealth := h, battleStats := b\<rparr>) = cds c"
  shows "fst (recalculateDerivedStats cds (c\<lparr>currentHealth := h, battleStats := b\<rparr>)) =
         (if stats c = None then b else fst (recalculateDerivedStats cds c))"
  by (simp add: recalculateDerivedStats_def Let_def pure effectsOf_def)

lemma recalc_shape:
  assumes "stats c \<noteq> None"
  shows "\<exists>m. recalculateDerivedStats cds c =
           (Some m, if currentHealth c \<noteq> 0 \<and> currentHealth c > maxHealth m
                    then c\<lparr>currentHealth := maxHealth m\<rparr> else c)"
  using assms by (cases "stats c") (simp_all add: recalculateDerivedStats_def Let_def)

text \<open>
  Claim C5. Let the external \<^verbatim>\<open>calculateDerivedStats\<close> depend on the creature's base
  attributes only, that is, neither on \<^verbatim>\<open>currentHealth\<close> nor on \<^verbatim>\<open>battleStats\<close>.
  Then a second call of \<^verbatim>\<open>recalculateDerivedStats\<close>, on the creature as the first call
  left it, returns the same stats as the first; so it does when the caller has stored
  the first result in \<^verbatim>\<open>battleStats\<close> in between; and the second call leaves the
  creature as it found it.
\<close>

theorem recalc_idempotent:
  assumes pure: "\<And>c h b. cds (c\<lparr>currentHealth := h, battleStats := b\<rparr>) = cds c"
  shows "fst (recalculateDerivedStats cds (snd (recalculateDerivedStats cds c))) =
           fst (recalculateDerivedStats cds c) \<and>
         fst (recalculateDerivedStats cds
               ((snd (recalculateDerivedStats cds c))\<lparr>battleStats := fst (recalculateDerivedStats cds c)\<rparr>)) =
           fst (recalculateDerivedStats cds c) \<and>
         snd (recalculateDerivedStats cds (snd (recalculateDerivedStats cds c))) =
           snd (recalculateDerivedStats cds c)"
proof (cases "stats c = None")
  case True
  then show ?thesis by (simp add: recalculateDerivedStats_def)
next
  case False
  obtain m where m: "recalculateDerivedStats cds c =
           (Some m, if currentHealth c \<noteq> 0 \<and> currentHealth c > maxHealth m
                    then c\<lparr>currentHealth := maxHealth m\<rparr> else c)"
    using recalc_shape [OF False] by blast
  define h where
    "h = (if currentHealth c \<noteq> 0 \<and> currentHealth c > maxHealth m then maxHealth m else currentHealth c)"
  have c1: "snd (recalculateDerivedStats cds c) = c\<lparr>currentHealth := h, battleStats := battleStats c\<rparr>"
    using m by (simp add: h_def)
  have f: "fst (recalculateDerivedStats cds c) = Some m" using m by simp
  have a: "fst (recalculateDerivedStats cds (snd (recalculateDerivedStats cds c))) = Some m"
    unfolding c1 using recalc_frame [OF pure, where c = c and h = h and b = "battleStats c"] False f
    by simp
  have b: "fst (recalculateDerivedStats cds
               ((snd (recalculateDerivedStats cds c))\<lparr>battleStats := Some m\<rparr>)) = Some m"
    unfolding c1 using recalc_frame [OF pure, where c = c and h = h and b = "Some m"] False f
    by simp
  let ?c1 = "c\<lparr>currentHealth := h, battleStats := battleStats c\<rparr>"
  have s1: "stats ?c1 \<noteq> None" using False by simp
  obtain m' where m': "recalculateDerivedStats cds ?c1 =
           (Some m', if currentHealth ?c1 \<noteq> 0 \<and> currentHealth ?c1 > maxHealth m'
                    then ?c1\<lparr>currentHealth := maxHealth m'\<rparr> else ?c1)"
    using recalc_shape [OF s1] by blast
  have mm: "m' = m" using a m' c1 by simp
  have hle: "\<not> (h \<noteq> 0 \<and> h > maxHealth m)" by (simp add: h_def)
  have c: "snd (recalculateDerivedStats cds (snd (recalculateDerivedStats cds c))) =
           snd (recalculateDerivedStats cds c)"
    unfolding c1 using m' mm hle by simp
  show ?thesis using a b c f by simp
qed

lemma exCombined_recalc:
  "recalculateDerivedStats exDerive exCombined =
     (Some \<lparr>physicalAttack = 46, magicalAttack = 35, physicalDefense = 46, magicalDefense = 35,
            maxHealth = 58, initiative = 9, criticalChance = 5, dodgeChance = 4, energyCost = 3\<rparr>,
      exCombined\<lparr>currentHealth := 58\<rparr>)"
  by (simp add: recalculateDerivedStats_def exCombined_def exCreature_def exDerive_def exStats_def
      guiltyConscience_def effectsOf_def entries_def addEffectMods_def addEffectMod_def clampStat_def
      getStat_def setStat_def combineStat_def statKeys_def js_round_def truthy_num_def num_or_def
      turnOf_def Let_def)

theorem recalc_idempotent_witness:
  "(\<forall>c h b. exDerive (c\<lparr>currentHealth := h, battleStats := b\<rparr>) = exDerive c) \<and>
   map_option maxHealth (fst (recalculateDerivedStats exDerive exCombined)) = Some 58 \<and>
   currentHealth (snd (recalculateDerivedStats exDerive exCombined)) = 58 \<and>
   fst (recalculateDerivedStats exDerive (snd (recalculateDerivedStats exDerive exCombined))) =
     fst (recalculateDerivedStats exDerive exCombined) \<and>
   snd (recalculateDerivedStats exDerive (snd (recalculateDerivedStats exDerive exCombined))) =
     snd (recalculateDerivedStats exDerive exCombined)"
proof -
  have pure: "\<And>c h b. exDerive (c\<lparr>currentHealth := h, battleStats := b\<rparr>) = exDerive c"
    by (simp add: exDerive_def)
  show ?thesis
    using recalc_idempotent [of exDerive exCombined, OF pure] pure
    by (simp add: exCombined_recalc)
qed

section \<open>Attack resolution\<close>

lemma processAttack_dodged:
  assumes "battleStats a = Some ab" "battleStats d = Some db"
    and "dr_isDodged (ar_damageResult (processAttack calcDamage comboBonus now r1 r2 (Some a) (Some d) ty lvl))"
  shows "updatedDefender (processAttack calcDamage comboBonus now r1 r2 (Some a) (Some d) ty lvl)
           = Some (d\<lparr>activeEffects := Some (effectsOf d)\<rparr>) \<and>
         actualDamage (processAttack calcDamage comboBonus now r1 r2 (Some a) (Some d) ty lvl) = 0 \<and>
         damage (processAttack calcDamage comboBonus now r1 r2 (Some a) (Some d) ty lvl) = 0"
proof -
  define aty where
    "aty = (if ty = ''auto'' then
              (if physicalAttack ab \<ge> magicalAttack ab then ''physical'' else ''magical'')
            else ty)"
  define ac where
    "ac = (if truthy_num (nextAttackBonus a) then
             a\<lparr>activeEffects := Some (effectsOf a),
               battleStats :=
                 Some (if aty = ''physical'' then
                         ab\<lparr>physicalAttack := physicalAttack ab + num_or (nextAttackBonus a) 0\<rparr>
                       else ab\<lparr>magicalAttack := magicalAttack ab + num_or (nextAttackBonus a) 0\<rparr>),
               nextAttackBonus := None\<rparr>
           else a\<lparr>activeEffects := Some (effectsOf a)\<rparr>)"
  define dres where "dres = calcDamage ac (d\<lparr>activeEffects := Some (effectsOf d)\<rparr>) aty (comboBonus lvl)"
  have dd: "dr_isDodged (ar_damageResult (processAttack calcDamage comboBonus now r1 r2 (Some a) (Some d) ty lvl))
      = dr_isDodged dres"
    using assms(1,2) unfolding processAttack_def dres_def ac_def aty_def
    by (simp add: Let_def)
  then have "dr_isDodged dres" using assms(3) by simp
  then show ?thesis
    using assms(1,2) unfolding processAttack_def dres_def ac_def aty_def
    by (simp add: Let_def)
qed

lemma processAttack_invalid:
  assumes "attacker = None \<or> defender = None \<or> Option.bind attacker battleStats = None \<or>
           Option.bind defender battleStats = None"
  shows "\<not> dr_isDodged (ar_damageResult (processAttack calcDamage comboBonus now r1 r2 attacker defender ty lvl))"
proof (cases attacker)
  case None
  then show ?thesis by (simp add: processAttack_def)
next
  case (Some a)
  note A = this
  show ?thesis
  proof (cases defender)
    case None
    then show ?thesis using A by (simp add: processAttack_def)
  next
    case (Some d)
    note D = this
    show ?thesis
    proof (cases "battleStats a")
      case None
      then show ?thesis using A D by (simp add: processAttack_def)
    next
      case (Some ab)
      then have "battleStats d = None" using assms A D by simp
      then show ?thesis using A D Some by (simp add: processAttack_def)
    qed
  qed
qed

text \<open>
  Claim C6. When the damage result \<^verbatim>\<open>processAttack\<close> returns has \<^verbatim>\<open>isDodged\<close> set, the
  defender it returns has the \<^verbatim>\<open>currentHealth\<close> and the active effects of the input
  defender (so no debuff was attached), and \<^verbatim>\<open>actualDamage\<close> and \<^verbatim>\<open>damage\<close> are 0.
  The result of an attack with a missing party or missing battle stats is not dodged.
\<close>

theorem dodged_attack:
  assumes "dr_isDodged (ar_damageResult (processAttack calcDamage comboBonus now r1 r2 attacker defender ty lvl))"
  shows "defender \<noteq> None \<and>
         map_option currentHealth (updatedDefender (processAttack calcDamage comboBonus now r1 r2 attacker defender ty lvl))
           = map_option currentHealth defender \<and>
         map_option effectsOf (updatedDefender (processAttack calcDamage comboBonus now r1 r2 attacker defender ty lvl))
           = map_option effectsOf defender \<and>
         actualDamage (processAttack calcDamage comboBonus now r1 r2 attacker defender ty lvl) = 0 \<and>
         damage (processAttack calcDamage comboBonus now r1 r2 attacker defender ty lvl) = 0"
proof -
  have v: "\<not> (attacker = None \<or> defender = None \<or> Option.bind attacker battleStats = None \<or>
              Option.bind defender battleStats = None)"
    using assms processAttack_invalid by blast
  then obtain a d where ad: "attacker = Some a" "defender = Some d" by auto
  then obtain ab db where bs: "battleStats a = Some ab" "battleStats d = Some db" using v by auto
  show ?thesis using processAttack_dodged [OF bs] assms ad by (simp add: effectsOf_def)
qed

theorem dodged_attack_witness:
  "dr_isDodged (ar_damageResult
     (processAttack exDodge exCombo 0 0 0 (Some exCreature) (Some exEnemy) ''auto'' 1)) \<and>
   map_option currentHealth
     (updatedDefender (processAttack exDodge exCombo 0 0 0 (Some exCreature) (Some exEnemy) ''auto'' 1))
     = Some 50 \<and>
   map_option effectsOf
     (updatedDefender (processAttack exDodge exCombo 0 0 0 (Some exCreature) (Some exEnemy) ''auto'' 1))
     = Some [] \<and>
   actualDamage (processAttack exDodge exCombo 0 0 0 (Some exCreature) (Some exEnemy) ''auto'' 1) = 0"
proof -
  have h: "dr_isDodged (ar_damageResult
     (processAttack exDodge exCombo 0 0 0 (Some exCreature) (Some exEnemy) ''auto'' 1))"
    by (simp add: processAttack_def Let_def exDodge_def exCreature_def exEnemy_def)
  show ?thesis using h dodged_attack [OF h]
    by (simp add: exEnemy_def exCreature_def effectsOf_def)
qed

section \<open>Item resolution\<close>

subsection \<open>The lookups never return null\<close>

lemma getToolEffect_total: "getToolEffect t \<noteq> None"
  by (simp add: getToolEffect_def Let_def split: option.splits)

lemma getSpellEffect_total: "getSpellEffect s cm \<noteq> None"
  by (simp add: getSpellEffect_def Let_def split: option.splits)

subsection \<open>The multiplier of a tool is a number\<close>

lemma toolPower_values:
  "calculateEffectPower (ToolItem t) cs d = Num (9 / 10) \<or> calculateEffectPower (ToolItem t) cs d = Num 1 \<or>
   calculateEffectPower (ToolItem t) cs d = Num (11 / 10) \<or> calculateEffectPower (ToolItem t) cs d = Num (12 / 10)"
  by (simp add: calculateEffectPower_def item_spell_type_def truthy_str_def Let_def split: option.splits)

lemma toolPower_number:
  "\<exists>m. calculateEffectPower (ToolItem t) cs d = Num m \<and> 9 / 10 \<le> m \<and> m \<le> 12 / 10"
  using toolPower_values [of t cs d] by auto

subsection \<open>The validation branches and the applied branch\<close>

lemma applyTool_invalid:
  "toolInputInvalid cr t \<Longrightarrow> applyTool cds i cr t d n = (cr, None)"
  by (cases cr; cases t; cases "Option.bind cr battleStats")
     (simp_all add: toolInputInvalid_def applyTool_def)

lemma recalc_effects: "activeEffects (snd (recalculateDerivedStats cds c)) = activeEffects c"
  by (simp add: recalculateDerivedStats_def Let_def)

lemma applyTool_valid:
  assumes "battleStats c = Some bs"
  shows "\<exists>c' te0 m. getToolEffect (Some t) = Some te0 \<and>
           calculateEffectPower (ToolItem t) (stats c) d = Num m \<and>
           applyTool cds i (Some c) (Some t) d n = (Some c', Some (scaleToolEffect m te0)) \<and>
           effectsOf c' =
             effectsOf c @
             (if (case te_duration (scaleToolEffect m te0) of None \<Rightarrow> False | Some k \<Rightarrow> k > 0) then
                [Some (toolActiveEffect i t te0 (scaleToolEffect m te0) m n)]
              else [])"
proof -
  obtain te0 where te0: "getToolEffect (Some t) = Some te0"
    using getToolEffect_total [of "Some t"] by auto
  obtain m where m: "calculateEffectPower (ToolItem t) (stats c) d = Num m"
    using toolPower_number [of t "stats c" d] by blast
  define scaled where "scaled = scaleToolEffect m te0"
  define bs1 where "bs1 = foldl applyMod bs (entries (te_statChanges scaled))"
  define clone1 where "clone1 = c\<lparr>currentTurn := Some n, battleStats := Some bs1\<rparr>"
  define clone2 where "clone2 =
      (if (case te_duration scaled of None \<Rightarrow> False | Some k \<Rightarrow> k > 0) then
         clone1\<lparr>activeEffects := Some (effectsOf clone1 @ [Some (toolActiveEffect i t te0 scaled m n)])\<rparr>
       else clone1)"
  define clone3 where "clone3 =
      (if truthy_num (te_healthChange scaled) \<and> num_or (te_healthChange scaled) 0 > 0 then
         clone2\<lparr>currentHealth := min (currentHealth clone2 + num_or (te_healthChange scaled) 0) (maxHealth bs1)\<rparr>
       else clone2)"
  define r where "r = recalculateDerivedStats cds clone3"
  have app: "applyTool cds i (Some c) (Some t) d n = (Some ((snd r)\<lparr>battleStats := fst r\<rparr>), Some scaled)"
    using assms te0 m
    unfolding r_def clone3_def clone2_def clone1_def bs1_def scaled_def
    by (simp add: applyTool_def Let_def split: prod.splits)
  have e1: "effectsOf clone1 = effectsOf c" by (simp add: clone1_def effectsOf_def)
  have e2: "effectsOf clone2 = effectsOf c @
      (if (case te_duration scaled of None \<Rightarrow> False | Some k \<Rightarrow> k > 0) then
         [Some (toolActiveEffect i t te0 scaled m n)] else [])"
    using e1 by (simp add: clone2_def effectsOf_def)
  have e3: "effectsOf clone3 = effectsOf clone2" by (simp add: clone3_def effectsOf_def)
  have e4: "effectsOf ((snd r)\<lparr>battleStats := fst r\<rparr>) = effectsOf clone3"
    using recalc_effects [of cds clone3] by (simp add: r_def effectsOf_def)
  show ?thesis using te0 m app e2 e3 e4 unfolding scaled_def by simp
qed

lemma getToolEffect_default:
  "toolLacksTag tv \<Longrightarrow>
   getToolEffect (Some tv) =
     Some (noToolFields\<lparr>te_statChanges := Some [(''physicalDefense'', 2)], te_duration := Some 1\<rparr>)"
  by (auto simp: toolLacksTag_def getToolEffect_def)

lemma getSpellEffect_default:
  "spellLacksTag sv \<Longrightarrow>
   getSpellEffect (Some sv) cm = Some (noSpellFields\<lparr>se_damage := Some 5, se_duration := Some 1\<rparr>)"
  by (auto simp: spellLacksTag_def getSpellEffect_def)

lemma default_tool_scaled:
  assumes "m = 9 / 10 \<or> m = 1 \<or> m = 11 / 10 \<or> m = 12 / 10"
  shows "te_statChanges (scaleToolEffect m
            (noToolFields\<lparr>te_statChanges := Some [(''physicalDefense'', 2)], te_duration := Some 1\<rparr>))
           = Some [(''physicalDefense'', 2)] \<and>
         te_duration (scaleToolEffect m
            (noToolFields\<lparr>te_statChanges := Some [(''physicalDefense'', 2)], te_duration := Some 1\<rparr>))
           = Some 1"
proof -
  have r: "js_round (2 * min m (15 / 10)) = 2"
    using assms
  proof (elim disjE)
    assume e: "m = 9 / 10" show ?thesis unfolding e js_round_def by simp
  next
    assume e: "m = 1" show ?thesis unfolding e js_round_def by simp
  next
    assume e: "m = 11 / 10" show ?thesis unfolding e js_round_def by simp
  next
    assume e: "m = 12 / 10" show ?thesis unfolding e js_round_def by simp
  qed
  have c: "cappedValue 10 2 = 2" by (simp add: cappedValue_def)
  show ?thesis
    using r c by (simp add: scaleToolEffect_def noToolFields_def mapValues_def entries_def scaleStat_def)
qed

lemma applyTool_default:
  assumes bs: "battleStats c \<noteq> None" and lt: "toolLacksTag tv"
  shows "\<exists>c' te e. applyTool cds i (Some c) (Some tv) d n = (Some c', Some te) \<and>
           te_statChanges te = Some [(''physicalDefense'', 2)] \<and> te_duration te = Some 1 \<and>
           effectsOf c' = effectsOf c @ [Some e] \<and> effect_id e = i \<and> duration e = 1 \<and>
           statModifications e = Some [(''physicalDefense'', 2)]"
proof -
  obtain b where b: "battleStats c = Some b" using bs by auto
  let ?te0 = "noToolFields\<lparr>te_statChanges := Some [(''physicalDefense'', 2)], te_duration := Some 1\<rparr>"
  obtain c' m where m: "calculateEffectPower (ToolItem tv) (stats c) d = Num m"
    and app: "applyTool cds i (Some c) (Some tv) d n = (Some c', Some (scaleToolEffect m ?te0))"
    and eff: "effectsOf c' = effectsOf c @
             (if (case te_duration (scaleToolEffect m ?te0) of None \<Rightarrow> False | Some k \<Rightarrow> k > 0) then
                [Some (toolActiveEffect i tv ?te0 (scaleToolEffect m ?te0) m n)]
              else [])"
    using applyTool_valid [OF b, of tv d cds i n] getToolEffect_default [OF lt] by auto
  have mv: "m = 9 / 10 \<or> m = 1 \<or> m = 11 / 10 \<or> m = 12 / 10"
    using toolPower_values [of tv "stats c" d] m by auto
  note sc = default_tool_scaled [OF mv]
  have e: "effect_id (toolActiveEffect i tv ?te0 (scaleToolEffect m ?te0) m n) = i"
    "duration (toolActiveEffect i tv ?te0 (scaleToolEffect m ?te0) m n) = 1"
    "statModifications (toolActiveEffect i tv ?te0 (scaleToolEffect m ?te0) m n) = Some [(''physicalDefense'', 2)]"
    using sc by (simp_all add: toolActiveEffect_def noToolFields_def Let_def entries_def)
  show ?thesis using app eff sc e by simp
qed

lemma applySpell_invalid:
  "spellInputInvalid ca ta sp \<Longrightarrow> applySpell cds i rnd ca ta sp d n = Returns (ca, ta, None)"
  by (cases ca; cases ta; cases sp; cases "Option.bind ca stats"; cases "Option.bind ta battleStats")
     (simp_all add: spellInputInvalid_def applySpell_def)

lemma spellResult_cases:
  "spellResult r = Throws \<or> (\<exists>ca' ta' se. spellResult r = Returns (Some ca', Some ta', Some se))"
  by (cases r) (simp_all add: spellResult_def)

lemma applySpell_valid_cases:
  assumes "stats ca = Some cs" "battleStats ta = Some tbs"
  shows "applySpell cds i rnd (Some ca) (Some ta) (Some sp) d n = Throws \<or>
         applySpell cds i rnd (Some ca) (Some ta) (Some sp) d n = ReturnsNaN \<or>
         (\<exists>ca' ta' se. applySpell cds i rnd (Some ca) (Some ta) (Some sp) d n
                          = Returns (Some ca', Some ta', Some se))"
proof -
  let ?cm = "num_or (table_get cs ''magic'') 5"
  obtain se0 where se0: "getSpellEffect (Some sp) ?cm = Some se0"
    using getSpellEffect_total [of "Some sp"] by auto
  show ?thesis
  proof (cases "calculateEffectPower (SpellItem sp) (Some cs) d")
    case (Num m)
    then have "applySpell cds i rnd (Some ca) (Some ta) (Some sp) d n =
        spellResult (spellBlocks cds i rnd ?cm sp se0 m n ca ta)"
      using assms se0 by (simp add: applySpell_def Let_def)
    then show ?thesis using spellResult_cases by metis
  next
    case NotANumber
    show ?thesis
    proof (cases "usesMultiplier se0")
      case True
      then have "applySpell cds i rnd (Some ca) (Some ta) (Some sp) d n =
          (case spellDrainStep \<lparr>sp_caster = ca\<lparr>currentTurn := Some n\<rparr>,
                                sp_target = ta\<lparr>currentTurn := Some n\<rparr>, sp_effect = se0\<rparr> of
             None \<Rightarrow> Throws | Some st \<Rightarrow> ReturnsNaN)"
        using assms se0 NotANumber by (simp add: applySpell_def Let_def)
      then show ?thesis by (simp split: option.splits)
    next
      case False
      then have "applySpell cds i rnd (Some ca) (Some ta) (Some sp) d n =
          spellResult (spellBlocks cds i rnd ?cm sp se0 0 n ca ta)"
        using assms se0 NotANumber by (simp add: applySpell_def Let_def)
      then show ?thesis using spellResult_cases by metis
    qed
  qed
qed

lemma caps_damage: "cappedFields (sp_effect (spellDamageStep m cm rnd st)) = cappedFields (sp_effect st)"
  by (simp add: spellDamageStep_def cappedFields_def Let_def)

lemma effect_heal: "spellHealStep st = Some st' \<Longrightarrow> sp_effect st' = sp_effect st"
  by (auto simp: spellHealStep_def split: if_splits option.splits)

lemma effect_selfHeal: "spellSelfHealStep st = Some st' \<Longrightarrow> sp_effect st' = sp_effect st"
  by (auto simp: spellSelfHealStep_def split: if_splits option.splits)

lemma effect_statChange: "spellStatChangeStep st = Some st' \<Longrightarrow> sp_effect st' = sp_effect st"
  by (auto simp: spellStatChangeStep_def split: if_splits option.splits)

lemma effect_drain: "spellDrainStep st = Some st' \<Longrightarrow> sp_effect st' = sp_effect st"
  by (auto simp: spellDrainStep_def split: if_splits option.splits prod.splits)

lemma effect_addEffect: "sp_effect (spellAddEffectStep i sp se m n st) = sp_effect st"
  by (simp add: spellAddEffectStep_def)

lemma effect_recalc: "sp_effect (spellRecalcStep cds st) = sp_effect st"
  by (simp add: spellRecalcStep_def split: prod.splits)

lemma spellBlocks_caps:
  assumes "spellBlocks cds i rnd cm sp se0 m n ca ta = Some st"
  shows "cappedFields (sp_effect st) = cappedFields (scaleSpellEffect m se0)"
proof -
  define st0 where "st0 = spellDamageStep m cm rnd
      \<lparr>sp_caster = ca\<lparr>currentTurn := Some n\<rparr>, sp_target = ta\<lparr>currentTurn := Some n\<rparr>,
       sp_effect = scaleSpellEffect m se0\<rparr>"
  have c0: "cappedFields (sp_effect st0) = cappedFields (scaleSpellEffect m se0)"
    unfolding st0_def by (simp add: caps_damage)
  have "sp_effect st = sp_effect st0"
    using assms unfolding spellBlocks_def st0_def [symmetric]
    by (auto simp: effect_addEffect effect_recalc Option.bind_eq_Some_conv
        dest!: effect_heal effect_selfHeal effect_statChange effect_drain)
  then show ?thesis using c0 by simp
qed

lemma applySpell_valid:
  assumes "stats ca = Some cs"
    and "calculateEffectPower (SpellItem sp) (Some cs) d = Num m"
    and "applySpell cds i rnd (Some ca) (Some ta) (Some sp) d n = Returns (ca', ta', Some se)"
  shows "\<exists>se0. getSpellEffect (Some sp) (num_or (table_get cs ''magic'') 5) = Some se0 \<and>
           cappedFields se = cappedFields (scaleSpellEffect m se0)"
proof -
  let ?cm = "num_or (table_get cs ''magic'') 5"
  obtain se0 where se0: "getSpellEffect (Some sp) ?cm = Some se0"
    using getSpellEffect_total [of "Some sp"] by auto
  have "\<not> spellInputInvalid (Some ca) (Some ta) (Some sp)"
    using assms(3) applySpell_invalid [of "Some ca" "Some ta" "Some sp" cds i rnd d n] by auto
  then obtain tbs where tbs: "battleStats ta = Some tbs" by (auto simp: spellInputInvalid_def)
  have app: "applySpell cds i rnd (Some ca) (Some ta) (Some sp) d n =
      spellResult (spellBlocks cds i rnd ?cm sp se0 m n ca ta)"
    using assms(1,2) tbs se0 by (simp add: applySpell_def Let_def)
  obtain st where st: "spellBlocks cds i rnd ?cm sp se0 m n ca ta = Some st" "se = sp_effect st"
    using app assms(3) by (auto simp: spellResult_def split: option.splits)
  show ?thesis using se0 spellBlocks_caps [OF st(1)] st(2) by simp
qed

lemma spellBlocks_default:
  "\<exists>st e. spellBlocks cds i rnd cm sp (noSpellFields\<lparr>se_damage := Some 5, se_duration := Some 1\<rparr>) m n ca ta
             = Some st \<and>
          se_damage (sp_effect st) = Some (js_round (min (5 * m) 100)) \<and>
          effectsOf (sp_target st) = effectsOf ta @ [Some e] \<and> effect_id e = i \<and> duration e = 1 \<and>
          (js_round (min (5 * m) 100) \<noteq> 0 \<longrightarrow>
             (\<exists>x. se_actualDamage (sp_effect st) = Some x \<and>
                  currentHealth (sp_target st) = max 0 (currentHealth ta - x)))"
proof -
  let ?se0 = "noSpellFields\<lparr>se_damage := Some 5, se_duration := Some 1\<rparr>"
  define st0 where "st0 = spellDamageStep m cm rnd
      \<lparr>sp_caster = ca\<lparr>currentTurn := Some n\<rparr>, sp_target = ta\<lparr>currentTurn := Some n\<rparr>,
       sp_effect = scaleSpellEffect m ?se0\<rparr>"
  have sc: "se_damage (scaleSpellEffect m ?se0) = Some (js_round (min (5 * m) 100))"
    "se_healing (scaleSpellEffect m ?se0) = Some 0" "se_selfHeal (scaleSpellEffect m ?se0) = Some 0"
    "se_statChanges (scaleSpellEffect m ?se0) = Some []"
    "se_statDrain (scaleSpellEffect m ?se0) = None"
    "se_armorPiercing (scaleSpellEffect m ?se0) = None"
    by (simp_all add: scaleSpellEffect_def noSpellFields_def truthy_num_def num_or_def mapValues_def
        entries_def)
  have f: "se_damage (sp_effect st0) = Some (js_round (min (5 * m) 100))"
    "se_healing (sp_effect st0) = Some 0" "se_selfHeal (sp_effect st0) = Some 0"
    "se_statChanges (sp_effect st0) = Some []" "se_statDrain (sp_effect st0) = None"
    "effectsOf (sp_target st0) = effectsOf ta"
    unfolding st0_def using sc by (simp_all add: spellDamageStep_def Let_def effectsOf_def)
  have h: "js_round (min (5 * m) 100) \<noteq> 0 \<longrightarrow>
             (\<exists>x. se_actualDamage (sp_effect st0) = Some x \<and>
                  currentHealth (sp_target st0) = max 0 (currentHealth ta - x))"
    unfolding st0_def using sc by (simp add: spellDamageStep_def Let_def num_or_def)
  have s1: "spellHealStep st0 = Some st0" using f by (simp add: spellHealStep_def truthy_num_def)
  have s2: "spellSelfHealStep st0 = Some st0" using f by (simp add: spellSelfHealStep_def truthy_num_def)
  have s3: "spellStatChangeStep st0 = Some st0" using f by (simp add: spellStatChangeStep_def entries_def)
  have s4: "spellDrainStep st0 = Some st0" using f by (simp add: spellDrainStep_def)
  define e where "e = spellActiveEffect i sp ?se0 (sp_effect st0) m n"
  have s5: "spellAddEffectStep i sp ?se0 m n st0 =
      st0\<lparr>sp_target := (sp_target st0)\<lparr>activeEffects := Some (effectsOf (sp_target st0) @ [Some e])\<rparr>\<rparr>"
    by (simp add: spellAddEffectStep_def noSpellFields_def e_def)
  define st1 where "st1 = spellAddEffectStep i sp ?se0 m n st0"
  have g: "sp_effect st1 = sp_effect st0" "effectsOf (sp_target st1) = effectsOf ta @ [Some e]"
    "currentHealth (sp_target st1) = currentHealth (sp_target st0)"
    unfolding st1_def s5 using f by (simp_all add: effectsOf_def)
  have s6: "spellRecalcStep cds st1 = st1" using g f by (simp add: spellRecalcStep_def entries_def)
  have run: "spellBlocks cds i rnd cm sp ?se0 m n ca ta = Some st1"
    unfolding spellBlocks_def st0_def [symmetric] by (simp add: s1 s2 s3 s4 s6 [unfolded st1_def] st1_def)
  have ee: "effect_id e = i" "duration e = 1"
    by (simp_all add: e_def spellActiveEffect_def noSpellFields_def)
  show ?thesis using run g f h ee by auto
qed

lemma applySpell_default:
  assumes "stats c1 \<noteq> None" "battleStats c2 \<noteq> None" "spellLacksTag sv"
    "calculateEffectPower (SpellItem sv) (stats c1) d = Num m"
  shows "\<exists>ca' ta' se e. applySpell cds i rnd (Some c1) (Some c2) (Some sv) d n
             = Returns (Some ca', Some ta', Some se) \<and>
          se_damage se = Some (js_round (min (5 * m) 100)) \<and>
          effectsOf ta' = effectsOf c2 @ [Some e] \<and> effect_id e = i \<and> duration e = 1 \<and>
          (js_round (min (5 * m) 100) \<noteq> 0 \<longrightarrow>
             (\<exists>x. se_actualDamage se = Some x \<and> currentHealth ta' = max 0 (currentHealth c2 - x)))"
proof -
  obtain cs tbs where v: "stats c1 = Some cs" "battleStats c2 = Some tbs" using assms(1,2) by auto
  let ?cm = "num_or (table_get cs ''magic'') 5"
  let ?se0 = "noSpellFields\<lparr>se_damage := Some 5, se_duration := Some 1\<rparr>"
  have app: "applySpell cds i rnd (Some c1) (Some c2) (Some sv) d n =
      spellResult (spellBlocks cds i rnd ?cm sv ?se0 m n c1 c2)"
    using v assms(4) getSpellEffect_default [OF assms(3), of ?cm] by (simp add: applySpell_def Let_def)
  obtain st e where st: "spellBlocks cds i rnd ?cm sv ?se0 m n c1 c2 = Some st"
    "se_damage (sp_effect st) = Some (js_round (min (5 * m) 100))"
    "effectsOf (sp_target st) = effectsOf c2 @ [Some e]" "effect_id e = i" "duration e = 1"
    "js_round (min (5 * m) 100) \<noteq> 0 \<longrightarrow>
       (\<exists>x. se_actualDamage (sp_effect st) = Some x \<and>
            currentHealth (sp_target st) = max 0 (currentHealth c2 - x))"
    using spellBlocks_default [of cds i rnd ?cm sv m n c1 c2] by blast
  have "applySpell cds i rnd (Some c1) (Some c2) (Some sv) d n =
      Returns (Some (sp_caster st), Some (sp_target st), Some (sp_effect st))"
    using app st(1) by (simp add: spellResult_def)
  then show ?thesis using st(2-6) by blast
qed

text \<open>
  Claim C3, as the code has it. \<^verbatim>\<open>applyTool\<close> returns the creature it was given and a
  null effect exactly when the creature or the tool is missing or the creature has no
  \<^verbatim>\<open>battleStats\<close>. A tool that is present and lacks \<^verbatim>\<open>tool_effect\<close> or \<^verbatim>\<open>tool_type\<close>
  is applied with the default effect: the effect returned has the stat changes
  \<^verbatim>\<open>{physicalDefense: 2}\<close> and the duration 1, and the creature returned has one more
  active effect, of duration 1, with these stat modifications. \<^verbatim>\<open>applySpell\<close> returns
  the caster and the target it was given and a null effect when the caster, the target
  or the spell is missing, the caster has no \<^verbatim>\<open>stats\<close> or the target no
  \<^verbatim>\<open>battleStats\<close>, and on no other input does it return a null effect. A spell that
  is present and lacks \<^verbatim>\<open>spell_effect\<close> or \<^verbatim>\<open>spell_type\<close> is applied with the default
  effect whenever its power multiplier is a number \<open>m\<close>: the effect returned has the
  damage \<^verbatim>\<open>Math.round(Math.min(5 * m, 100))\<close>, the target returned has one more active
  effect, of duration 1, and, when that damage is not 0, the health of the target has
  gone down by the damage dealt.
\<close>

theorem fail_soft_on_missing_entities:
  "(toolInputInvalid cr t \<longrightarrow> applyTool cds i cr t d n = (cr, None)) \<and>
   (\<not> toolInputInvalid cr t \<longrightarrow> snd (applyTool cds i cr t d n) \<noteq> None) \<and>
   (battleStats c \<noteq> None \<and> toolLacksTag tv \<longrightarrow>
      (\<exists>c' te e. applyTool cds i (Some c) (Some tv) d n = (Some c', Some te) \<and>
         te_statChanges te = Some [(''physicalDefense'', 2)] \<and> te_duration te = Some 1 \<and>
         effectsOf c' = effectsOf c @ [Some e] \<and> effect_id e = i \<and> duration e = 1 \<and>
         statModifications e = Some [(''physicalDefense'', 2)])) \<and>
   (spellInputInvalid ca ta sp \<longrightarrow> applySpell cds i rnd ca ta sp d n = Returns (ca, ta, None)) \<and>
   (\<not> spellInputInvalid ca ta sp \<longrightarrow>
      (\<forall>x y. applySpell cds i rnd ca ta sp d n \<noteq> Returns (x, y, None))) \<and>
   (stats c1 \<noteq> None \<and> battleStats c2 \<noteq> None \<and> spellLacksTag sv \<and>
    calculateEffectPower (SpellItem sv) (stats c1) d = Num m \<longrightarrow>
      (\<exists>ca' ta' se e. applySpell cds i rnd (Some c1) (Some c2) (Some sv) d n
             = Returns (Some ca', Some ta', Some se) \<and>
          se_damage se = Some (js_round (min (5 * m) 100)) \<and>
          effectsOf ta' = effectsOf c2 @ [Some e] \<and> effect_id e = i \<and> duration e = 1 \<and>
          (js_round (min (5 * m) 100) \<noteq> 0 \<longrightarrow>
             (\<exists>x. se_actualDamage se = Some x \<and> currentHealth ta' = max 0 (currentHealth c2 - x)))))"
proof (intro conjI impI)
  assume "toolInputInvalid cr t"
  then show "applyTool cds i cr t d n = (cr, None)" by (rule applyTool_invalid)
next
  assume "\<not> toolInputInvalid cr t"
  then obtain c0 tv0 bs where "cr = Some c0" "t = Some tv0" "battleStats c0 = Some bs"
    by (auto simp: toolInputInvalid_def)
  then show "snd (applyTool cds i cr t d n) \<noteq> None"
    using applyTool_valid [of c0 bs tv0 d cds i n] by auto
next
  assume "battleStats c \<noteq> None \<and> toolLacksTag tv"
  then show "\<exists>c' te e. applyTool cds i (Some c) (Some tv) d n = (Some c', Some te) \<and>
         te_statChanges te = Some [(''physicalDefense'', 2)] \<and> te_duration te = Some 1 \<and>
         effectsOf c' = effectsOf c @ [Some e] \<and> effect_id e = i \<and> duration e = 1 \<and>
         statModifications e = Some [(''physicalDefense'', 2)]"
    using applyTool_default [of c tv cds i d n] by simp
next
  assume "spellInputInvalid ca ta sp"
  then show "applySpell cds i rnd ca ta sp d n = Returns (ca, ta, None)" by (rule applySpell_invalid)
next
  assume "\<not> spellInputInvalid ca ta sp"
  then obtain a1 a2 s cs tbs where "ca = Some a1" "ta = Some a2" "sp = Some s" "stats a1 = Some cs"
      "battleStats a2 = Some tbs"
    by (auto simp: spellInputInvalid_def)
  then show "\<forall>x y. applySpell cds i rnd ca ta sp d n \<noteq> Returns (x, y, None)"
    using applySpell_valid_cases [of a1 cs a2 tbs cds i rnd s d n] by auto
next
  assume "stats c1 \<noteq> None \<and> battleStats c2 \<noteq> None \<and> spellLacksTag sv \<and>
    calculateEffectPower (SpellItem sv) (stats c1) d = Num m"
  then show "\<exists>ca' ta' se e. applySpell cds i rnd (Some c1) (Some c2) (Some sv) d n
             = Returns (Some ca', Some ta', Some se) \<and>
          se_damage se = Some (js_round (min (5 * m) 100)) \<and>
          effectsOf ta' = effectsOf c2 @ [Some e] \<and> effect_id e = i \<and> duration e = 1 \<and>
          (js_round (min (5 * m) 100) \<noteq> 0 \<longrightarrow>
             (\<exists>x. se_actualDamage se = Some x \<and> currentHealth ta' = max 0 (currentHealth c2 - x)))"
    using applySpell_default [of c1 c2 sv d m cds i rnd n] by simp
qed

lemmas js_simps = js_round_def js_floor_def truthy_num_def truthy_str_def num_or_def str_or_def
  table_set_def table_get_def entries_def mapValues_def

lemmas stat_simps = getStat_def setStat_def applyMod_def addMod_def

lemmas recalc_simps = recalculateDerivedStats_def addEffectMods_def addEffectMod_def clampStat_def
  addPermanent_def effectsOf_def

lemmas tool_simps = applyTool_def calculateEffectPower_def item_spell_type_def getToolEffect_def
  scaleToolEffect_def scaleStat_def cappedValue_def toolActiveEffect_def powerLevelOf_def
  noToolFields_def toolBaseEffect_def toolBaseEffects_def

lemmas spell_simps = applySpell_def spellBlocks_def spellResult_def usesMultiplier_def returned_def
  calculateEffectPower_def item_spell_type_def getSpellEffect_def
  scaleSpellEffect_def scaleStat_def cappedValue_def spellActiveEffect_def powerLevelOf_def
  noSpellFields_def spellBaseEffect_def spellBaseEffects_def shieldSpell_def drainSpell_def
  chargeSpell_def echoSpell_def spellDamageStep_def spellHealStep_def spellSelfHealStep_def
  spellStatChangeStep_def spellDrainStep_def drainStep_def spellAddEffectStep_def spellRecalcStep_def
  inheritedNames_def

lemmas ex_simps = exCreature_def exStats_def exDerive_def

text \<open>
  Claim C3 as stated fails: a tool that is present and has no \<^verbatim>\<open>tool_effect\<close> is applied
  with the default effect of \<^verbatim>\<open>getToolEffect\<close>; the result is not the unchanged creature
  with a null effect.
\<close>

theorem untagged_tool_is_applied:
  "applyTool exDerive 1 (Some exCreature) (Some untaggedTool) ''medium'' 0 \<noteq> (Some exCreature, None) \<and>
   map_option te_statChanges (snd (applyTool exDerive 1 (Some exCreature) (Some untaggedTool) ''medium'' 0))
     = Some (Some [(''physicalDefense'', 2)]) \<and>
   map_option effectTypes (fst (applyTool exDerive 1 (Some exCreature) (Some untaggedTool) ''medium'' 0))
     = Some [Some ''magic''] \<and>
   effectTypes exCreature = []"
  by (simp add: tool_simps recalc_simps js_simps stat_simps ex_simps untaggedTool_def effectTypes_def
      Let_def)

lemma mage_shield:
  "map_option (\<lambda>r. (map_option healthAndMax (fst r), map_option healthAndMax (fst (snd r)),
                    map_option cappedFields (snd (snd r))))
     (returned (applySpell exDerive 1 (1 / 2) (Some exMage) (Some exMage) (Some shieldSpellItem) ''medium'' 0)) =
   Some (Some (50, Some 50), Some (50, Some 62),
         Some (Some 0, Some 80, Some 0,
               Some [(''physicalDefense'', 8), (''magicalDefense'', 8), (''maxHealth'', 12)]))"
  by (simp add: spell_simps recalc_simps js_simps stat_simps ex_simps exMage_def shieldSpellItem_def
      Let_def healthAndMax_def cappedFields_def)

lemma mage_power:
  "calculateEffectPower (SpellItem untaggedSpell) (stats exMage) ''medium'' = Num (9 / 4)"
  by (simp add: calculateEffectPower_def item_spell_type_def untaggedSpell_def exMage_def
      exCreature_def js_simps Let_def)

theorem fail_soft_on_missing_entities_witness:
  "toolInputInvalid None (Some untaggedTool) \<and>
   applyTool exDerive 1 None (Some untaggedTool) ''medium'' 0 = (None, None) \<and>
   \<not> toolInputInvalid (Some exCreature) (Some untaggedTool) \<and>
   snd (applyTool exDerive 1 (Some exCreature) (Some untaggedTool) ''medium'' 0) \<noteq> None \<and>
   battleStats exCreature \<noteq> None \<and> toolLacksTag untaggedTool \<and>
   (\<exists>c' te e. applyTool exDerive 1 (Some exCreature) (Some untaggedTool) ''medium'' 0 = (Some c', Some te) \<and>
      te_statChanges te = Some [(''physicalDefense'', 2)] \<and> te_duration te = Some 1 \<and>
      effectsOf c' = [Some e] \<and> effect_id e = 1 \<and> duration e = 1 \<and>
      statModifications e = Some [(''physicalDefense'', 2)]) \<and>
   spellInputInvalid (Some exMage) None (Some untaggedSpell) \<and>
   applySpell exDerive 1 (1 / 2) (Some exMage) None (Some untaggedSpell) ''medium'' 0
     = Returns (Some exMage, None, None) \<and>
   \<not> spellInputInvalid (Some exMage) (Some exEnemy) (Some untaggedSpell) \<and>
   (\<exists>r. applySpell exDerive 1 (1 / 2) (Some exMage) (Some exEnemy) (Some untaggedSpell) ''medium'' 0
           = Returns r \<and> snd (snd r) \<noteq> None) \<and>
   stats exMage \<noteq> None \<and> battleStats exEnemy \<noteq> None \<and> spellLacksTag untaggedSpell \<and>
   calculateEffectPower (SpellItem untaggedSpell) (stats exMage) ''medium'' = Num (9 / 4) \<and>
   (\<exists>ca' ta' se e.
      applySpell exDerive 1 (1 / 2) (Some exMage) (Some exEnemy) (Some untaggedSpell) ''medium'' 0
        = Returns (Some ca', Some ta', Some se) \<and>
      se_damage se = Some 11 \<and> effectsOf ta' = [Some e] \<and> effect_id e = 1 \<and> duration e = 1 \<and>
      (\<exists>x. se_actualDamage se = Some x \<and> currentHealth ta' = max 0 (50 - x)))"
proof -
  have a: "toolInputInvalid None (Some untaggedTool)" by (simp add: toolInputInvalid_def)
  have b: "\<not> toolInputInvalid (Some exCreature) (Some untaggedTool)"
    "battleStats exCreature \<noteq> None" "effectsOf exCreature = []"
    by (simp_all add: toolInputInvalid_def exCreature_def effectsOf_def)
  have lt: "toolLacksTag untaggedTool" by (simp add: toolLacksTag_def untaggedTool_def truthy_str_def)
  have c: "spellInputInvalid (Some exMage) None (Some untaggedSpell)"
    by (simp add: spellInputInvalid_def)
  have d: "\<not> spellInputInvalid (Some exMage) (Some exEnemy) (Some untaggedSpell)"
    "stats exMage \<noteq> None" "battleStats exEnemy \<noteq> None" "effectsOf exEnemy = []"
    "currentHealth exEnemy = 50"
    by (simp_all add: spellInputInvalid_def exMage_def exEnemy_def exCreature_def effectsOf_def)
  have ls: "spellLacksTag untaggedSpell"
    by (simp add: spellLacksTag_def untaggedSpell_def truthy_str_def)
  have r: "js_round (min (5 * (9 / 4)) 100) = 11" by (simp add: js_round_def)
  note inv = fail_soft_on_missing_entities [where cr = None and t = "Some untaggedTool"
      and cds = exDerive and i = 1 and d = "''medium''" and n = 0 and c = exCreature
      and tv = untaggedTool and ca = "Some exMage" and ta = None and sp = "Some untaggedSpell"
      and rnd = "1 / 2" and ?c1.0 = exMage and ?c2.0 = exEnemy and sv = untaggedSpell and m = "9 / 4"]
  note val = fail_soft_on_missing_entities [where cr = "Some exCreature" and t = "Some untaggedTool"
      and cds = exDerive and i = 1 and d = "''medium''" and n = 0 and c = exCreature
      and tv = untaggedTool and ca = "Some exMage" and ta = "Some exEnemy" and sp = "Some untaggedSpell"
      and rnd = "1 / 2" and ?c1.0 = exMage and ?c2.0 = exEnemy and sv = untaggedSpell and m = "9 / 4"]
  have t1: "applyTool exDerive 1 None (Some untaggedTool) ''medium'' 0 = (None, None)"
    using inv a by simp
  have t2: "snd (applyTool exDerive 1 (Some exCreature) (Some untaggedTool) ''medium'' 0) \<noteq> None"
    using val b(1) by simp
  have t3: "\<exists>c' te e. applyTool exDerive 1 (Some exCreature) (Some untaggedTool) ''medium'' 0 = (Some c', Some te) \<and>
      te_statChanges te = Some [(''physicalDefense'', 2)] \<and> te_duration te = Some 1 \<and>
      effectsOf c' = [Some e] \<and> effect_id e = 1 \<and> duration e = 1 \<and>
      statModifications e = Some [(''physicalDefense'', 2)]"
    using val b(2,3) lt by simp
  have s1: "applySpell exDerive 1 (1 / 2) (Some exMage) None (Some untaggedSpell) ''medium'' 0
     = Returns (Some exMage, None, None)"
    using inv c by simp
  have s3: "\<exists>ca' ta' se e.
      applySpell exDerive 1 (1 / 2) (Some exMage) (Some exEnemy) (Some untaggedSpell) ''medium'' 0
        = Returns (Some ca', Some ta', Some se) \<and>
      se_damage se = Some 11 \<and> effectsOf ta' = [Some e] \<and> effect_id e = 1 \<and> duration e = 1 \<and>
      (\<exists>x. se_actualDamage se = Some x \<and> currentHealth ta' = max 0 (50 - x))"
    using val d(2,3,4,5) ls mage_power r by simp
  have s2: "\<exists>r. applySpell exDerive 1 (1 / 2) (Some exMage) (Some exEnemy) (Some untaggedSpell) ''medium'' 0
           = Returns r \<and> snd (snd r) \<noteq> None"
    using s3 by auto
  show ?thesis using a b(1,2) lt c d(1,2,3) ls mage_power t1 t2 t3 s1 s2 s3 by simp
qed

subsection \<open>The caps\<close>

lemma abs_cappedValue: "0 \<le> cap \<Longrightarrow> \<bar>cappedValue cap v\<bar> \<le> cap"
proof -
  assume c: "0 \<le> cap"
  have "\<bar>cappedValue cap v\<bar> = \<bar>min \<bar>v\<bar> cap\<bar> * \<bar>sgn v\<bar>"
    by (simp add: cappedValue_def abs_mult)
  also have "\<dots> \<le> cap * 1"
    using c by (intro mult_mono) (auto simp: abs_sgn_eq)
  finally show ?thesis by simp
qed

lemma js_round_le: "x \<le> of_int k \<Longrightarrow> js_round x \<le> of_int k"
  unfolding js_round_def by (simp add: floor_le_iff)

lemma js_round_ge: "of_int k \<le> x \<Longrightarrow> of_int k \<le> js_round x"
  unfolding js_round_def by (simp add: le_floor_iff)

lemma abs_js_round_le:
  assumes "\<bar>x\<bar> \<le> of_int k"
  shows "\<bar>js_round x\<bar> \<le> of_int k"
proof -
  have "js_round x \<le> of_int k" using assms by (intro js_round_le) linarith
  moreover have "of_int (- k) \<le> js_round x" using assms by (intro js_round_ge) simp
  ultimately show ?thesis by simp
qed

lemma scaleStat_tool_bound:
  assumes "0 \<le> m"
  shows "\<bar>scaleStat 10 m v\<bar> \<le> 15"
proof -
  have a: "\<bar>cappedValue 10 v\<bar> \<le> 10" by (rule abs_cappedValue) simp
  have b: "\<bar>min m (15 / 10)\<bar> \<le> 15 / 10" using assms by simp
  have "\<bar>cappedValue 10 v * min m (15 / 10)\<bar> \<le> 10 * (15 / 10)"
    unfolding abs_mult using a b by (intro mult_mono) auto
  then have "\<bar>cappedValue 10 v * min m (15 / 10)\<bar> \<le> of_int 15" by simp
  then have "\<bar>js_round (cappedValue 10 v * min m (15 / 10))\<bar> \<le> of_int 15" by (rule abs_js_round_le)
  then show ?thesis by (simp add: scaleStat_def)
qed

lemma scaleStat_spell_bound:
  assumes "0 \<le> m"
  shows "\<bar>scaleStat 12 m v\<bar> \<le> 18"
proof -
  have a: "\<bar>cappedValue 12 v\<bar> \<le> 12" by (rule abs_cappedValue) simp
  have b: "\<bar>min m (15 / 10)\<bar> \<le> 15 / 10" using assms by simp
  have "\<bar>cappedValue 12 v * min m (15 / 10)\<bar> \<le> 12 * (15 / 10)"
    unfolding abs_mult using a b by (intro mult_mono) auto
  then have "\<bar>cappedValue 12 v * min m (15 / 10)\<bar> \<le> of_int 18" by simp
  then have "\<bar>js_round (cappedValue 12 v * min m (15 / 10))\<bar> \<le> of_int 18" by (rule abs_js_round_le)
  then show ?thesis by (simp add: scaleStat_def)
qed

lemma js_round_min_le: "js_round (min x (of_int k)) \<le> of_int k"
  by (rule js_round_le) simp

lemma mapValues_set: "kv \<in> set (mapValues f t) \<Longrightarrow> \<exists>v. snd kv = f v"
  by (auto simp: mapValues_def)

lemma scaleTool_entries:
  "entries (te_statChanges (scaleToolEffect m te0)) = mapValues (scaleStat 10 m) (te_statChanges te0)"
  by (simp add: scaleToolEffect_def entries_def)

lemma scaleTool_health: "\<exists>h. te_healthChange (scaleToolEffect m te0) = Some h \<and> h \<le> 50"
  using js_round_min_le [of _ 50] by (simp add: scaleToolEffect_def)

lemma scaleSpell_entries:
  "entries (se_statChanges (scaleSpellEffect m se0)) = mapValues (scaleStat 12 m) (se_statChanges se0)"
  by (simp add: scaleSpellEffect_def entries_def)

lemma scaleSpell_caps:
  "(\<exists>x. se_damage (scaleSpellEffect m se0) = Some x \<and> x \<le> 100) \<and>
   (\<exists>x. se_healing (scaleSpellEffect m se0) = Some x \<and> x \<le> 80) \<and>
   (\<exists>x. se_selfHeal (scaleSpellEffect m se0) = Some x \<and> x \<le> 40)"
  using js_round_min_le [of _ 100] js_round_min_le [of _ 80] js_round_min_le [of _ 40]
  by (simp add: scaleSpellEffect_def)

text \<open>
  Where the multiplier is a number the caps hold. In the effect \<^verbatim>\<open>applyTool\<close> returns,
  every stat change is the rounding of a base value of magnitude at most 10 times the
  multiplier cut at 1.5, and so has magnitude at most 15; the immediate healing is at
  most 50. In the effect \<^verbatim>\<open>applySpell\<close> returns under a multiplier that is a number,
  every stat change is the rounding of a base value of magnitude at most 12 times the
  multiplier cut at 1.5, and has magnitude at most 18 when the multiplier is not
  negative; the healing is at most 80, the self-heal at most 40, and the direct damage
  (the field \<^verbatim>\<open>damage\<close>, before the critical-hit and armor-piercing adjustments) at most
  100.
\<close>

lemma caps_under_a_number:
  "(applyTool cds i (Some c) (Some t) d n = (cr', Some te) \<longrightarrow>
      (\<exists>m. calculateEffectPower (ToolItem t) (stats c) d = Num m \<and>
        (\<forall>kv \<in> set (entries (te_statChanges te)).
           (\<exists>b. \<bar>b\<bar> \<le> 10 \<and> snd kv = js_round (b * min m (15 / 10))) \<and> \<bar>snd kv\<bar> \<le> 15)) \<and>
      (\<exists>h. te_healthChange te = Some h \<and> h \<le> 50)) \<and>
   (calculateEffectPower (SpellItem sp) (stats ca) d = Num m' \<and>
    applySpell cds i rnd (Some ca) (Some ta) (Some sp) d n = Returns (ca', ta', Some se) \<longrightarrow>
      (\<forall>kv \<in> set (entries (se_statChanges se)).
          (\<exists>b. \<bar>b\<bar> \<le> 12 \<and> snd kv = js_round (b * min m' (15 / 10))) \<and>
          (0 \<le> m' \<longrightarrow> \<bar>snd kv\<bar> \<le> 18)) \<and>
      (\<exists>x. se_damage se = Some x \<and> x \<le> 100) \<and>
      (\<exists>x. se_healing se = Some x \<and> x \<le> 80) \<and>
      (\<exists>x. se_selfHeal se = Some x \<and> x \<le> 40))"
proof (intro conjI impI)
  assume a: "applyTool cds i (Some c) (Some t) d n = (cr', Some te)"
  have "\<not> toolInputInvalid (Some c) (Some t)"
    using a applyTool_invalid [of "Some c" "Some t" cds i d n] by auto
  then obtain bs where bs: "battleStats c = Some bs" by (auto simp: toolInputInvalid_def)
  obtain c' te0 m where te0: "getToolEffect (Some t) = Some te0"
    "calculateEffectPower (ToolItem t) (stats c) d = Num m"
    "applyTool cds i (Some c) (Some t) d n = (Some c', Some (scaleToolEffect m te0))"
    using applyTool_valid [OF bs, of t d cds i n] by blast
  have te: "te = scaleToolEffect m te0" using a te0(3) by simp
  have m0: "0 \<le> m" using toolPower_number [of t "stats c" d] te0(2) by auto
  have "\<forall>kv \<in> set (entries (te_statChanges te)).
          (\<exists>b. \<bar>b\<bar> \<le> 10 \<and> snd kv = js_round (b * min m (15 / 10))) \<and> \<bar>snd kv\<bar> \<le> 15"
  proof
    fix kv assume "kv \<in> set (entries (te_statChanges te))"
    then obtain v where v: "snd kv = scaleStat 10 m v"
      unfolding te scaleTool_entries using mapValues_set by blast
    have "\<bar>cappedValue 10 v\<bar> \<le> 10" by (rule abs_cappedValue) simp
    then have "\<exists>b. \<bar>b\<bar> \<le> 10 \<and> snd kv = js_round (b * min m (15 / 10))"
      using v unfolding scaleStat_def by blast
    moreover have "\<bar>snd kv\<bar> \<le> 15" unfolding v using m0 by (rule scaleStat_tool_bound)
    ultimately show "(\<exists>b. \<bar>b\<bar> \<le> 10 \<and> snd kv = js_round (b * min m (15 / 10))) \<and> \<bar>snd kv\<bar> \<le> 15"
      by simp
  qed
  then show "\<exists>m. calculateEffectPower (ToolItem t) (stats c) d = Num m \<and>
        (\<forall>kv \<in> set (entries (te_statChanges te)).
           (\<exists>b. \<bar>b\<bar> \<le> 10 \<and> snd kv = js_round (b * min m (15 / 10))) \<and> \<bar>snd kv\<bar> \<le> 15)"
    using te0(2) by blast
  show "\<exists>h. te_healthChange te = Some h \<and> h \<le> 50" unfolding te by (rule scaleTool_health)
next
  assume "calculateEffectPower (SpellItem sp) (stats ca) d = Num m' \<and>
    applySpell cds i rnd (Some ca) (Some ta) (Some sp) d n = Returns (ca', ta', Some se)"
  then have pw: "calculateEffectPower (SpellItem sp) (stats ca) d = Num m'"
    and a: "applySpell cds i rnd (Some ca) (Some ta) (Some sp) d n = Returns (ca', ta', Some se)"
    by simp_all
  have "\<not> spellInputInvalid (Some ca) (Some ta) (Some sp)"
    using a applySpell_invalid [of "Some ca" "Some ta" "Some sp" cds i rnd d n] by auto
  then obtain cs where v: "stats ca = Some cs"
    by (auto simp: spellInputInvalid_def)
  have pw': "calculateEffectPower (SpellItem sp) (Some cs) d = Num m'" using pw v by simp
  obtain se0 where se: "cappedFields se = cappedFields (scaleSpellEffect m' se0)"
    using applySpell_valid [OF v pw' a] by auto
  have ent: "entries (se_statChanges se) = mapValues (scaleStat 12 m') (se_statChanges se0)"
    using se scaleSpell_entries [of m' se0] by (simp add: cappedFields_def)
  show "\<forall>kv \<in> set (entries (se_statChanges se)).
          (\<exists>b. \<bar>b\<bar> \<le> 12 \<and> snd kv = js_round (b * min m' (15 / 10))) \<and>
          (0 \<le> m' \<longrightarrow> \<bar>snd kv\<bar> \<le> 18)"
  proof
    fix kv assume "kv \<in> set (entries (se_statChanges se))"
    then obtain v where v: "snd kv = scaleStat 12 m' v"
      unfolding ent using mapValues_set by blast
    have "\<bar>cappedValue 12 v\<bar> \<le> 12" by (rule abs_cappedValue) simp
    then have "\<exists>b. \<bar>b\<bar> \<le> 12 \<and> snd kv = js_round (b * min m' (15 / 10))"
      using v unfolding scaleStat_def by blast
    moreover have "0 \<le> m' \<longrightarrow> \<bar>snd kv\<bar> \<le> 18" unfolding v using scaleStat_spell_bound by blast
    ultimately show "(\<exists>b. \<bar>b\<bar> \<le> 12 \<and> snd kv = js_round (b * min m' (15 / 10))) \<and>
          (0 \<le> m' \<longrightarrow> \<bar>snd kv\<bar> \<le> 18)" by simp
  qed
  show "\<exists>x. se_damage se = Some x \<and> x \<le> 100"
    using se scaleSpell_caps [of m' se0] by (simp add: cappedFields_def)
  show "\<exists>x. se_healing se = Some x \<and> x \<le> 80"
    using se scaleSpell_caps [of m' se0] by (simp add: cappedFields_def)
  show "\<exists>x. se_selfHeal se = Some x \<and> x \<le> 40"
    using se scaleSpell_caps [of m' se0] by (simp add: cappedFields_def)
qed

text \<open>
  Claim C9 at the failing input: a Drain spell whose \<^verbatim>\<open>spell_type\<close> is
  \<^verbatim>\<open>constructor\<close>, cast by a creature whose \<^verbatim>\<open>stats\<close> have no entry of that name.
  \<^verbatim>\<open>casterStats[item.spell_type]\<close> is the inherited function, the multiplier is
  \<^verbatim>\<open>NaN\<close>, the base effect has a damage and a self-heal to scale, and the call
  returns an effect whose damage and self-heal are \<^verbatim>\<open>NaN\<close>: neither is at most its
  cap.
\<close>

theorem nan_multiplier_escapes_caps:
  "calculateEffectPower (SpellItem inheritedDrainSpell) (stats exCreature) ''medium'' = NotANumber \<and>
   map_option (\<lambda>e. (truthy_num (se_damage e), truthy_num (se_selfHeal e), usesMultiplier e))
     (getSpellEffect (Some inheritedDrainSpell) 5) = Some (True, True, True) \<and>
   applySpell exDerive 1 (1 / 2) (Some exCreature) (Some exEnemy) (Some inheritedDrainSpell) ''medium'' 0
     = ReturnsNaN"
  by (simp add: spell_simps js_simps stat_simps ex_simps exEnemy_def inheritedDrainSpell_def Let_def)

subsection \<open>The duration of a looked-up effect\<close>

lemma toolBaseEffect_duration:
  "ty \<notin> set inheritedNames \<Longrightarrow> \<exists>n. te_duration (toolBaseEffect ty) = Some n"
  by (simp add: toolBaseEffect_def toolBaseEffects_def noToolFields_def)

lemma spellBaseEffect_duration:
  "ty \<notin> set inheritedNames \<Longrightarrow> \<exists>n. se_duration (spellBaseEffect mp ty) = Some n"
  by (simp add: spellBaseEffect_def spellBaseEffects_def noSpellFields_def drainSpell_def
      chargeSpell_def shieldSpell_def echoSpell_def)

lemma getToolEffect_tagged:
  assumes "tool_effect tv = Some eff" "tool_type tv = Some ty" "eff \<in> set effectTags"
  shows "\<exists>te n. getToolEffect (Some tv) = Some te \<and> te_duration te = Some n"
  using assms
  by (auto simp add: getToolEffect_def truthy_str_def effectTags_def noToolFields_def Let_def)

lemma getToolEffect_untagged:
  assumes "tool_effect tv = Some eff" "tool_type tv = Some ty" "eff \<notin> set effectTags" "ty \<noteq> []" "eff \<noteq> []"
  shows "\<exists>te. getToolEffect (Some tv) = Some te \<and> te_duration te = te_duration (toolBaseEffect ty)"
  using assms
  by (simp add: getToolEffect_def truthy_str_def effectTags_def Let_def)

lemma getSpellEffect_tagged:
  assumes "spell_effect sv = Some eff" "spell_type sv = Some ty" "eff \<in> set effectTags"
  shows "\<exists>se n. getSpellEffect (Some sv) cm = Some se \<and> se_duration se = Some n"
  using assms
  by (auto simp add: getSpellEffect_def truthy_str_def effectTags_def noSpellFields_def Let_def
      drainSpell_def chargeSpell_def shieldSpell_def echoSpell_def)

lemma getSpellEffect_untagged:
  assumes "spell_effect sv = Some eff" "spell_type sv = Some ty" "eff \<notin> set effectTags" "ty \<noteq> []" "eff \<noteq> []"
  shows "\<exists>se. getSpellEffect (Some sv) cm = Some se \<and>
              se_duration se = se_duration (spellBaseEffect (1 + cm * (15 / 100)) ty)"
  using assms
  by (simp add: getSpellEffect_def truthy_str_def effectTags_def Let_def)

text \<open>For a category that is not the name of an inherited member, the effect
  \<^verbatim>\<open>getToolEffect\<close> returns has a duration, and so has the one of \<^verbatim>\<open>getSpellEffect\<close>.\<close>

lemma getToolEffect_duration:
  assumes "\<And>tv ty. t = Some tv \<Longrightarrow> tool_type tv = Some ty \<Longrightarrow> ty \<notin> set inheritedNames"
  shows "\<exists>te n. getToolEffect t = Some te \<and> te_duration te = Some n"
proof (cases t)
  case None
  then show ?thesis by (simp add: getToolEffect_def noToolFields_def)
next
  case (Some tv)
  show ?thesis
  proof (cases "truthy_str (tool_effect tv) \<and> truthy_str (tool_type tv)")
    case False
    then show ?thesis using Some by (auto simp: getToolEffect_def noToolFields_def)
  next
    case True
    then obtain eff ty where e: "tool_effect tv = Some eff" "tool_type tv = Some ty" "eff \<noteq> []" "ty \<noteq> []"
      by (auto simp: truthy_str_def split: option.splits)
    show ?thesis
    proof (cases "eff \<in> set effectTags")
      case True
      then show ?thesis using getToolEffect_tagged [OF e(1,2)] Some by simp
    next
      case False
      obtain n where "te_duration (toolBaseEffect ty) = Some n"
        using assms [OF Some e(2)] toolBaseEffect_duration by blast
      then show ?thesis using getToolEffect_untagged [OF e(1,2) False e(4,3)] Some by auto
    qed
  qed
qed

lemma getSpellEffect_duration:
  assumes "\<And>sv ty. s = Some sv \<Longrightarrow> spell_type sv = Some ty \<Longrightarrow> ty \<notin> set inheritedNames"
  shows "\<exists>se n. getSpellEffect s cm = Some se \<and> se_duration se = Some n"
proof (cases s)
  case None
  then show ?thesis by (simp add: getSpellEffect_def noSpellFields_def)
next
  case (Some sv)
  show ?thesis
  proof (cases "truthy_str (spell_effect sv) \<and> truthy_str (spell_type sv)")
    case False
    then show ?thesis using Some by (auto simp: getSpellEffect_def noSpellFields_def)
  next
    case True
    then obtain eff ty where e: "spell_effect sv = Some eff" "spell_type sv = Some ty" "eff \<noteq> []" "ty \<noteq> []"
      by (auto simp: truthy_str_def split: option.splits)
    show ?thesis
    proof (cases "eff \<in> set effectTags")
      case True
      then show ?thesis using getSpellEffect_tagged [OF e(1,2)] Some by simp
    next
      case False
      obtain n where "se_duration (spellBaseEffect (1 + cm * (15 / 100)) ty) = Some n"
        using assms [OF Some e(2)] spellBaseEffect_duration by blast
      then show ?thesis using getSpellEffect_untagged [OF e(1,2) False e(4,3), of cm] Some by auto
    qed
  qed
qed

text \<open>
  Claim C10 at the failing input: for the category \<^verbatim>\<open>'constructor'\<close> and an effect tag
  that is none of the five, \<^verbatim>\<open>getToolEffect\<close> and \<^verbatim>\<open>getSpellEffect\<close> return an object
  (not null) that has no \<^verbatim>\<open>duration\<close>.
\<close>

theorem inherited_category_no_duration:
  "map_option te_duration (getToolEffect (Some inheritedTool)) = Some None \<and>
   map_option se_duration (getSpellEffect (Some inheritedSpell) 5) = Some None"
  by (simp add: getToolEffect_def getSpellEffect_def toolBaseEffect_def toolBaseEffects_def
      spellBaseEffect_def spellBaseEffects_def inheritedNames_def inheritedTool_def inheritedSpell_def
      noToolFields_def noSpellFields_def js_simps drainSpell_def chargeSpell_def shieldSpell_def
      echoSpell_def Let_def)

section \<open>Death triggers\<close>

lemma those_map_Some:
  "\<forall>x \<in> set xs. f x = Some (g x) \<Longrightarrow> those (map f xs) = Some (map g xs)"
  by (induction xs) simp_all

lemma effectsOf_pushEffect: "effectsOf (pushEffect c e) = effectsOf c @ [Some e]"
  by (simp add: pushEffect_def effectsOf_def)

lemma map_enumerate_snd:
  assumes "\<forall>ka \<in> set (enumerate n xs). f ka = g (snd ka)"
  shows "map f (enumerate n xs) = map g xs"
proof -
  have "map f (enumerate n xs) = map (\<lambda>ka. g (snd ka)) (enumerate n xs)"
    using assms by (intro map_cong) simp_all
  also have "\<dots> = map (g \<circ> snd) (enumerate n xs)" by (simp add: comp_def)
  also have "\<dots> = map g (map snd (enumerate n xs))" by (simp only: map_map)
  also have "\<dots> = map g xs" by (simp only: map_snd_enumerate)
  finally show ?thesis .
qed

lemma snd_enumerate_mem: "ka \<in> set (enumerate n xs) \<Longrightarrow> snd ka \<in> set xs"
  by (cases ka) (auto simp: in_set_enumerate_eq)

lemma shapesOf_pushEffect: "shapesOf (pushEffect c e) = shapesOf c @ [Some (effectShape e)]"
  by (simp add: shapesOf_def effectsOf_pushEffect)

lemma id_pushEffect: "creature_id (pushEffect c e) = creature_id c"
  by (simp add: pushEffect_def)

lemma battleStats_pushEffect: "battleStats (pushEffect c e) = battleStats c"
  by (simp add: pushEffect_def)

lemma blessAlly_shape:
  "battleStats a \<noteq> None \<Longrightarrow>
   \<exists>a'. blessAlly dead i a = Some a' \<and> creature_id a' = creature_id a \<and> battleStats a' \<noteq> None \<and>
        shapesOf a' = shapesOf a @ [Some (effectShape (finalGift dead i a))]"
  by (auto simp: blessAlly_def pushEffect_def effectsOf_def shapesOf_def)

lemma shape_finalGift:
  "effectShape (finalGift dead i a) =
     (species_name dead @ [CHR 0x27] @ ''s Final Gift'', ''legendary_blessing'', 5,
      Some [(''physicalAttack'', 2), (''magicalAttack'', 2)])"
  by (simp add: effectShape_def finalGift_def)

lemma shape_energyRelease:
  "effectShape (energyRelease i a) = (''Energy Release'', ''energy_burst'', 2, Some [(''energyCost'', - 1)])"
  by (simp add: effectShape_def energyRelease_def)

lemma shape_epicEssence:
  "effectShape (epicEssence i a) =
     (''Epic Essence'', ''epic_blessing'', 3, Some [(''physicalAttack'', 1), (''magicalAttack'', 1)])"
  by (simp add: effectShape_def epicEssence_def)

lemma shape_guiltyConscience:
  "effectShape (guiltyConscience i a) =
     (''Guilty Conscience'', ''debuff'', 2, Some [(''initiative'', - 2), (''dodgeChance'', - 1)])"
  by (simp add: effectShape_def guiltyConscience_def)

lemma battleStats_map:
  assumes "map battleStats ys = map battleStats xs" "\<forall>a \<in> set xs. battleStats a \<noteq> None"
  shows "\<forall>a \<in> set ys. battleStats a \<noteq> None"
proof -
  have "set (map battleStats ys) = set (map battleStats xs)" using assms(1) by simp
  then have "battleStats ` set ys = battleStats ` set xs" by simp
  then show ?thesis using assms(2) by (metis imageE imageI)
qed

lemma push_step:
  assumes sh: "\<And>i a. effectShape (mk i a) = s0"
  shows "map creature_id (map (\<lambda>ka. pushEffect (snd ka) (mk (ids (fst ka)) (snd ka))) (enumerate k xs))
     = map creature_id xs \<and>
   map battleStats (map (\<lambda>ka. pushEffect (snd ka) (mk (ids (fst ka)) (snd ka))) (enumerate k xs))
     = map battleStats xs \<and>
   map shapesOf (map (\<lambda>ka. pushEffect (snd ka) (mk (ids (fst ka)) (snd ka))) (enumerate k xs))
     = map (\<lambda>e. shapesOf e @ [Some s0]) xs"
proof -
  have a: "map (\<lambda>ka. creature_id (pushEffect (snd ka) (mk (ids (fst ka)) (snd ka)))) (enumerate k xs)
      = map creature_id xs"
    by (rule map_enumerate_snd) (simp add: id_pushEffect)
  have b: "map (\<lambda>ka. battleStats (pushEffect (snd ka) (mk (ids (fst ka)) (snd ka)))) (enumerate k xs)
      = map battleStats xs"
    by (rule map_enumerate_snd) (simp add: battleStats_pushEffect)
  have c: "map (\<lambda>ka. shapesOf (pushEffect (snd ka) (mk (ids (fst ka)) (snd ka)))) (enumerate k xs)
      = map (\<lambda>e. shapesOf e @ [Some s0]) xs"
    by (rule map_enumerate_snd) (simp add: shapesOf_pushEffect sh)
  show ?thesis using a b c by (simp add: comp_def)
qed

lemma bless_step:
  assumes bs: "\<forall>a \<in> set xs. battleStats a \<noteq> None"
  shows "\<exists>ys. those (map (\<lambda>ka. blessAlly dead (ids (fst ka)) (snd ka)) (enumerate k xs)) = Some ys \<and>
     map creature_id ys = map creature_id xs \<and> (\<forall>a \<in> set ys. battleStats a \<noteq> None) \<and>
     map shapesOf ys = map (\<lambda>e. shapesOf e @ [Some (effectShape (finalGift dead 0 dead))]) xs"
proof -
  define blessed where "blessed = (\<lambda>ka. the (blessAlly dead (ids (fst ka)) (snd ka)))"
  have bl: "\<forall>ka \<in> set (enumerate k xs).
      blessAlly dead (ids (fst ka)) (snd ka) = Some (blessed ka) \<and>
      creature_id (blessed ka) = creature_id (snd ka) \<and> battleStats (blessed ka) \<noteq> None \<and>
      shapesOf (blessed ka) = shapesOf (snd ka) @ [Some (effectShape (finalGift dead 0 dead))]"
  proof
    fix ka assume "ka \<in> set (enumerate k xs)"
    then have "battleStats (snd ka) \<noteq> None" using bs snd_enumerate_mem by blast
    then show "blessAlly dead (ids (fst ka)) (snd ka) = Some (blessed ka) \<and>
      creature_id (blessed ka) = creature_id (snd ka) \<and> battleStats (blessed ka) \<noteq> None \<and>
      shapesOf (blessed ka) = shapesOf (snd ka) @ [Some (effectShape (finalGift dead 0 dead))]"
      using blessAlly_shape [of "snd ka" dead "ids (fst ka)"]
      by (auto simp: blessed_def shape_finalGift)
  qed
  have th: "those (map (\<lambda>ka. blessAlly dead (ids (fst ka)) (snd ka)) (enumerate k xs)) =
      Some (map blessed (enumerate k xs))"
    by (rule those_map_Some) (use bl in simp)
  have a: "map (\<lambda>ka. creature_id (blessed ka)) (enumerate k xs) = map creature_id xs"
    by (rule map_enumerate_snd) (use bl in simp)
  have c: "map (\<lambda>ka. shapesOf (blessed ka)) (enumerate k xs)
      = map (\<lambda>e. shapesOf e @ [Some (effectShape (finalGift dead 0 dead))]) xs"
    by (rule map_enumerate_snd) (use bl in simp)
  have b: "\<forall>a \<in> set (map blessed (enumerate k xs)). battleStats a \<noteq> None"
    using bl by auto
  show ?thesis using th a b c by (simp add: comp_def)
qed

lemma defeatStep_shapes:
  assumes bs: "\<forall>a \<in> set surv. battleStats a \<noteq> None"
    and dead: "\<not> currentHealth d > 0"
  shows "\<exists>surv1 opp1 n1. defeatStep ids (surv, opp, n) d = Some (surv1, opp1, n1) \<and>
           map creature_id surv1 = map creature_id surv \<and>
           (\<forall>a \<in> set surv1. battleStats a \<noteq> None) \<and>
           map shapesOf surv1 = map (\<lambda>a. shapesOf a @ allyShapes d) surv \<and>
           map creature_id opp1 = map creature_id opp \<and>
           map shapesOf opp1 = map (\<lambda>e. shapesOf e @ revengeShapes d) opp"
proof -
  define energy where
    "energy = (case specialty_stats d of None \<Rightarrow> False | Some sp \<Rightarrow> ''energy'' \<in> set sp)"
  define rev where "rev = (\<lambda>k. map (\<lambda>ka. pushEffect (snd ka) (guiltyConscience (ids (fst ka)) (snd ka)))
      (enumerate k opp))"
  have rv: "\<And>k. map creature_id (rev k) = map creature_id opp \<and>
      map shapesOf (rev k) = map (\<lambda>e. shapesOf e @ [Some (effectShape (guiltyConscience 0 d))]) opp"
    unfolding rev_def
    using push_step [of guiltyConscience "effectShape (guiltyConscience 0 d)" ids _ opp]
    by (simp add: shape_guiltyConscience)
  consider (L) "rarity d = ''Legendary''"
    | (E) "rarity d \<noteq> ''Legendary''" "energy"
    | (P) "rarity d \<noteq> ''Legendary''" "\<not> energy" "rarity d = ''Epic''"
    | (N) "rarity d \<noteq> ''Legendary''" "\<not> energy" "rarity d \<noteq> ''Epic''"
    by blast
  then show ?thesis
  proof cases
    case L
    obtain ys where ys: "those (map (\<lambda>ka. blessAlly d (ids (fst ka)) (snd ka)) (enumerate n surv)) = Some ys"
      "map creature_id ys = map creature_id surv" "\<forall>a \<in> set ys. battleStats a \<noteq> None"
      "map shapesOf ys = map (\<lambda>e. shapesOf e @ [Some (effectShape (finalGift d 0 d))]) surv"
      using bless_step [OF bs, of d ids n] by blast
    have "defeatStep ids (surv, opp, n) d = Some (ys, rev (n + length surv), n + length surv + length opp)"
      using dead L ys(1) by (simp add: defeatStep_def rev_def)
    then show ?thesis using L ys(2,3,4) rv [of "n + length surv"]
      by (simp add: allyShapes_def revengeShapes_def allyTrigger_def revengeTrigger_def)
  next
    case E
    define ys where "ys = map (\<lambda>ka. pushEffect (snd ka) (energyRelease (ids (fst ka)) (snd ka))) (enumerate n surv)"
    have p: "map creature_id ys = map creature_id surv" "map battleStats ys = map battleStats surv"
      "map shapesOf ys = map (\<lambda>e. shapesOf e @ [Some (effectShape (energyRelease 0 d))]) surv"
      unfolding ys_def using push_step [of energyRelease "effectShape (energyRelease 0 d)" ids n surv]
      by (simp_all add: shape_energyRelease)
    have "defeatStep ids (surv, opp, n) d =
        Some (ys, (if rarity d = ''Epic'' then rev (n + length surv) else opp),
              (if rarity d = ''Epic'' then n + length surv + length opp else n + length surv))"
      using dead E by (simp add: defeatStep_def energy_def rev_def ys_def)
    then show ?thesis using E p(1,3) battleStats_map [OF p(2) bs] rv [of "n + length surv"]
      by (simp add: allyShapes_def revengeShapes_def allyTrigger_def revengeTrigger_def energy_def)
  next
    case P
    define ys where "ys = map (\<lambda>ka. pushEffect (snd ka) (epicEssence (ids (fst ka)) (snd ka))) (enumerate n surv)"
    have p: "map creature_id ys = map creature_id surv" "map battleStats ys = map battleStats surv"
      "map shapesOf ys = map (\<lambda>e. shapesOf e @ [Some (effectShape (epicEssence 0 d))]) surv"
      unfolding ys_def using push_step [of epicEssence "effectShape (epicEssence 0 d)" ids n surv]
      by (simp_all add: shape_epicEssence)
    have "defeatStep ids (surv, opp, n) d =
        Some (ys, rev (n + length surv), n + length surv + length opp)"
      using dead P by (simp add: defeatStep_def energy_def rev_def ys_def)
    then show ?thesis using P p(1,3) battleStats_map [OF p(2) bs] rv [of "n + length surv"]
      by (simp add: allyShapes_def revengeShapes_def allyTrigger_def revengeTrigger_def energy_def)
  next
    case N
    have "defeatStep ids (surv, opp, n) d = Some (surv, opp, n)"
      using dead N by (simp add: defeatStep_def energy_def)
    then show ?thesis using N bs
      by (simp add: allyShapes_def revengeShapes_def allyTrigger_def revengeTrigger_def energy_def)
  qed
qed

lemma forEachDefeat_shapes:
  assumes "\<forall>a \<in> set surv. battleStats a \<noteq> None"
    and "\<forall>c \<in> set cs. currentHealth c > 0 \<longrightarrow> battleStats c \<noteq> None"
  shows "\<exists>surv' opp' n'. forEachDefeat ids (surv, opp, n) cs = Some (surv', opp', n') \<and>
           map creature_id surv' = map creature_id surv @ map creature_id (filter (\<lambda>c. currentHealth c > 0) cs) \<and>
           map shapesOf surv' =
             map (\<lambda>a. shapesOf a @ concat (map allyShapes (filter defeated cs))) surv @ survivorShapes cs \<and>
           map creature_id opp' = map creature_id opp \<and>
           map shapesOf opp' = map (\<lambda>e. shapesOf e @ concat (map revengeShapes (filter defeated cs))) opp"
  using assms
proof (induction cs arbitrary: surv opp n)
  case Nil
  then show ?case by simp
next
  case (Cons c cs)
  show ?case
  proof (cases "currentHealth c > 0")
    case True
    have st: "defeatStep ids (surv, opp, n) c = Some (surv @ [c], opp, n)"
      using True by (simp add: defeatStep_def)
    have b: "\<forall>a \<in> set (surv @ [c]). battleStats a \<noteq> None" using Cons.prems True by simp
    have r: "\<forall>c \<in> set cs. currentHealth c > 0 \<longrightarrow> battleStats c \<noteq> None" using Cons.prems by simp
    have nd: "\<not> defeated c" using True by (simp add: defeated_def)
    show ?thesis
      using Cons.IH [OF b r, of opp n] st True nd by simp
  next
    case False
    obtain surv1 opp1 n1 where st: "defeatStep ids (surv, opp, n) c = Some (surv1, opp1, n1)"
      and p: "map creature_id surv1 = map creature_id surv" "\<forall>a \<in> set surv1. battleStats a \<noteq> None"
        "map shapesOf surv1 = map (\<lambda>a. shapesOf a @ allyShapes c) surv"
        "map creature_id opp1 = map creature_id opp"
        "map shapesOf opp1 = map (\<lambda>e. shapesOf e @ revengeShapes c) opp"
      using defeatStep_shapes [OF Cons.prems(1) False, of ids opp n] by blast
    have r: "\<forall>c \<in> set cs. currentHealth c > 0 \<longrightarrow> battleStats c \<noteq> None" using Cons.prems by simp
    obtain surv' opp' n' where run: "forEachDefeat ids (surv1, opp1, n1) cs = Some (surv', opp', n')"
      and q: "map creature_id surv' = map creature_id surv1 @ map creature_id (filter (\<lambda>c. currentHealth c > 0) cs)"
        "map shapesOf surv' =
           map (\<lambda>a. shapesOf a @ concat (map allyShapes (filter defeated cs))) surv1 @ survivorShapes cs"
        "map creature_id opp' = map creature_id opp1"
        "map shapesOf opp' = map (\<lambda>e. shapesOf e @ concat (map revengeShapes (filter defeated cs))) opp1"
      using Cons.IH [OF p(2) r, of opp1 n1] by blast
    have m1: "map (\<lambda>a. shapesOf a @ concat (map allyShapes (filter defeated cs))) surv1
        = map (\<lambda>s. s @ concat (map allyShapes (filter defeated cs))) (map shapesOf surv1)"
      by (simp add: comp_def)
    have m2: "map (\<lambda>e. shapesOf e @ concat (map revengeShapes (filter defeated cs))) opp1
        = map (\<lambda>s. s @ concat (map revengeShapes (filter defeated cs))) (map shapesOf opp1)"
      by (simp add: comp_def)
    have dd: "defeated c" using False by (simp add: defeated_def)
    show ?thesis
      using st run q p(1,4) False dd unfolding m1 m2 p(3) p(5)
      by (simp add: comp_def)
  qed
qed

text \<open>
  Claim C4, as the code has it, for any field whose surviving creatures have
  \<^verbatim>\<open>battleStats\<close> and any opposing field. \<^verbatim>\<open>processDefeatedCreatures\<close> returns the
  survivors in field order. Each defeated creature contributes at most one ally
  trigger, chosen by priority: the legendary blessing for a Legendary creature (also
  for one with the energy specialty), else the Energy Release for an energy specialist,
  else the Epic Essence for an Epic creature, else nothing. A survivor has the effects
  it had, followed by the ally triggers of the defeated creatures that come after it in
  the field, in field order: the triggers of different defeated creatures stack. Every
  creature of the opposing field has the effects it had, followed by one revenge debuff
  for each defeated creature that is Legendary or Epic.
\<close>

theorem death_triggers_by_priority:
  assumes "\<forall>c \<in> set cs. currentHealth c > 0 \<longrightarrow> battleStats c \<noteq> None"
  shows "\<exists>surv opp'. processDefeatedCreatures ids cs opp = Some (surv, opp') \<and>
           map creature_id surv = map creature_id (filter (\<lambda>c. currentHealth c > 0) cs) \<and>
           map shapesOf surv = survivorShapes cs \<and>
           map creature_id opp' = map creature_id opp \<and>
           map shapesOf opp' = map (\<lambda>e. shapesOf e @ concat (map revengeShapes (filter defeated cs))) opp \<and>
           list_all (\<lambda>d. length (allyShapes d) \<le> 1 \<and>
                         (rarity d = ''Legendary'' \<longrightarrow>
                            allyShapes d = [Some (species_name d @ [CHR 0x27] @ ''s Final Gift'',
                               ''legendary_blessing'', 5, Some [(''physicalAttack'', 2), (''magicalAttack'', 2)])]))
                    (filter defeated cs)"
proof -
  obtain surv' opp' n' where run: "forEachDefeat ids ([], opp, 0) cs = Some (surv', opp', n')"
    and q: "map creature_id surv' = map creature_id [] @ map creature_id (filter (\<lambda>c. currentHealth c > 0) cs)"
      "map shapesOf surv' =
         map (\<lambda>a. shapesOf a @ concat (map allyShapes (filter defeated cs))) [] @ survivorShapes cs"
      "map creature_id opp' = map creature_id opp"
      "map shapesOf opp' = map (\<lambda>e. shapesOf e @ concat (map revengeShapes (filter defeated cs))) opp"
    using forEachDefeat_shapes [of "[]" cs ids opp 0] assms by auto
  have pr: "\<And>d. length (allyShapes d) \<le> 1 \<and>
                         (rarity d = ''Legendary'' \<longrightarrow>
                            allyShapes d = [Some (species_name d @ [CHR 0x27] @ ''s Final Gift'',
                               ''legendary_blessing'', 5, Some [(''physicalAttack'', 2), (''magicalAttack'', 2)])])"
    by (simp add: allyShapes_def allyTrigger_def shape_finalGift)
  have "processDefeatedCreatures ids cs opp = Some (surv', opp')"
    unfolding processDefeatedCreatures_def run by simp
  then show ?thesis using q pr by (simp add: list_all_iff)
qed

lemma exField_facts:
  "\<forall>c \<in> set [exCreature, exLegend, exAlly2, exEpic]. currentHealth c > 0 \<longrightarrow> battleStats c \<noteq> None"
  "filter (\<lambda>c. currentHealth c > 0) [exCreature, exLegend, exAlly2, exEpic] = [exCreature, exAlly2]"
  "filter defeated [exCreature, exLegend, exAlly2, exEpic] = [exLegend, exEpic]"
  "survivorShapes [exCreature, exLegend, exAlly2, exEpic] =
     [allyShapes exLegend @ allyShapes exEpic, allyShapes exEpic]"
  "shapesOf exEnemy = []"
  by (simp_all add: exCreature_def exAlly2_def exLegend_def exEpic_def exEnemy_def defeated_def
      shapesOf_def effectsOf_def)

lemma exField_shapes:
  "allyShapes exLegend =
     [Some (''Phoenix'' @ [CHR 0x27] @ ''s Final Gift'', ''legendary_blessing'', 5,
            Some [(''physicalAttack'', 2), (''magicalAttack'', 2)])]"
  "allyShapes exEpic =
     [Some (''Epic Essence'', ''epic_blessing'', 3, Some [(''physicalAttack'', 1), (''magicalAttack'', 1)])]"
  "revengeShapes exLegend =
     [Some (''Guilty Conscience'', ''debuff'', 2, Some [(''initiative'', - 2), (''dodgeChance'', - 1)])]"
  "revengeShapes exEpic =
     [Some (''Guilty Conscience'', ''debuff'', 2, Some [(''initiative'', - 2), (''dodgeChance'', - 1)])]"
  by (simp_all add: allyShapes_def revengeShapes_def allyTrigger_def revengeTrigger_def
      shape_finalGift shape_epicEssence shape_guiltyConscience exLegend_def exEpic_def exCreature_def)

theorem death_triggers_by_priority_witness:
  "battleStats exCreature \<noteq> None \<and> battleStats exAlly2 \<noteq> None \<and>
   currentHealth exCreature > 0 \<and> currentHealth exAlly2 > 0 \<and>
   defeated exLegend \<and> defeated exEpic \<and> rarity exLegend = ''Legendary'' \<and>
   specialty_stats exLegend = Some [''energy''] \<and>
   (\<exists>surv opp'.
      processDefeatedCreatures exIds [exCreature, exLegend, exAlly2, exEpic] [exEnemy] = Some (surv, opp') \<and>
      map creature_id surv = [''c1'', ''c2''] \<and>
      map shapesOf surv =
        [[Some (''Phoenix'' @ [CHR 0x27] @ ''s Final Gift'', ''legendary_blessing'', 5,
                Some [(''physicalAttack'', 2), (''magicalAttack'', 2)]),
          Some (''Epic Essence'', ''epic_blessing'', 3, Some [(''physicalAttack'', 1), (''magicalAttack'', 1)])],
         [Some (''Epic Essence'', ''epic_blessing'', 3, Some [(''physicalAttack'', 1), (''magicalAttack'', 1)])]] \<and>
      map creature_id opp' = [''e1''] \<and>
      map shapesOf opp' =
        [[Some (''Guilty Conscience'', ''debuff'', 2, Some [(''initiative'', - 2), (''dodgeChance'', - 1)]),
          Some (''Guilty Conscience'', ''debuff'', 2, Some [(''initiative'', - 2), (''dodgeChance'', - 1)])]])"
proof -
  obtain surv opp' where r:
    "processDefeatedCreatures exIds [exCreature, exLegend, exAlly2, exEpic] [exEnemy] = Some (surv, opp')"
    "map creature_id surv =
       map creature_id (filter (\<lambda>c. currentHealth c > 0) [exCreature, exLegend, exAlly2, exEpic])"
    "map shapesOf surv = survivorShapes [exCreature, exLegend, exAlly2, exEpic]"
    "map creature_id opp' = map creature_id [exEnemy]"
    "map shapesOf opp' =
       map (\<lambda>e. shapesOf e @ concat (map revengeShapes (filter defeated [exCreature, exLegend, exAlly2, exEpic])))
         [exEnemy]"
    using death_triggers_by_priority [OF exField_facts(1), of exIds "[exEnemy]"] by blast
  have ids: "map creature_id surv = [''c1'', ''c2'']"
    unfolding r(2) exField_facts(2) by (simp add: exCreature_def exAlly2_def)
  have sh: "map shapesOf surv = [allyShapes exLegend @ allyShapes exEpic, allyShapes exEpic]"
    unfolding r(3) exField_facts(4) by simp
  have oi: "map creature_id opp' = [''e1'']" unfolding r(4) by (simp add: exEnemy_def)
  have os: "map shapesOf opp' = [revengeShapes exLegend @ revengeShapes exEpic]"
    unfolding r(5) exField_facts(3) by (simp add: exField_facts(5))
  have h: "battleStats exCreature \<noteq> None \<and> battleStats exAlly2 \<noteq> None \<and>
     currentHealth exCreature > 0 \<and> currentHealth exAlly2 > 0 \<and>
     defeated exLegend \<and> defeated exEpic \<and> rarity exLegend = ''Legendary'' \<and>
     specialty_stats exLegend = Some [''energy'']"
    by (simp add: exCreature_def exAlly2_def exLegend_def exEpic_def defeated_def)
  show ?thesis using h r(1) ids sh oi os unfolding exField_shapes by simp
qed

lemmas defeat_simps = processDefeatedCreatures_def defeatStep_def blessAlly_def pushEffect_def
  finalGift_def energyRelease_def epicEssence_def guiltyConscience_def turnOf_def effectsOf_def
  enumerate_eq_zip

text \<open>
  Claim C4 as stated fails: a defeated Legendary creature with the energy specialty
  leaves one new effect on the ally before it, the legendary blessing, and no Energy
  Release.
\<close>

theorem legendary_energy_single_trigger:
  "map_option (map effectTypes \<circ> fst) (processDefeatedCreatures exIds [exCreature, exLegend] [exEnemy])
     = Some [[Some ''legendary_blessing'']]"
  by (simp add: defeat_simps effectTypes_def exLegend_def exEnemy_def ex_simps)

text \<open>
  Claim C8 at the failing input: the defeated Legendary creature stands first in a
  field with three more creatures that are alive. The three survivors are returned as
  they were: none has received a legendary blessing.
\<close>

theorem legendary_first_no_blessing:
  "processDefeatedCreatures exIds [exLegend, exCreature, exAlly2, exAlly3] []
     = Some ([exCreature, exAlly2, exAlly3], [])"
  by (simp add: defeat_simps exLegend_def exAlly2_def exAlly3_def ex_simps)

section \<open>The tick of ongoing effects\<close>

lemmas tick_simps = tickCreature_def tickEffect_def processTimedEffect_def startOf_def keepEffect_def
  effectsOf_def

lemma afterShield_eq: "afterShield = exCreature\<lparr>currentTurn := Some 0,
   battleStats := Some (exStats\<lparr>physicalDefense := 50, magicalDefense := 40, maxHealth := 60\<rparr>),
   currentHealth := 55,
   activeEffects := Some [Some \<lparr>effect_id = 1, effect_name = ''Ledger Lens Effect'', etype = ''magic'',
       duration = 2,
       statModifications = Some [(''physicalDefense'', 10), (''magicalDefense'', 10), (''maxHealth'', 10)],
       healthOverTime = Some 0, startTurn = Some 0, effectType = Some ''Shield'',
       powerLevel = Some ''weak'', chargeEffect = None\<rparr>]\<rparr>"
  unfolding afterShield_def
  by (simp add: tool_simps recalc_simps js_simps stat_simps ex_simps shieldTool_def Let_def)

lemma afterDrain_eq: "afterDrain = exCreature\<lparr>currentTurn := Some 0,
   battleStats := Some (exStats\<lparr>physicalAttack := 48, magicalAttack := 38, physicalDefense := 48,
                               magicalDefense := 38, maxHealth := 60\<rparr>),
   currentHealth := 60,
   activeEffects := Some [Some \<lparr>effect_id = 1, effect_name = ''Ledger Lens Effect'', etype = ''magic'',
       duration = 2,
       statModifications = Some [(''physicalDefense'', 10), (''magicalDefense'', 10), (''maxHealth'', 10)],
       healthOverTime = Some 0, startTurn = Some 0, effectType = Some ''Shield'',
       powerLevel = Some ''weak'', chargeEffect = None\<rparr>,
     Some \<lparr>effect_id = 2, effect_name = ''Validator Core Effect'', etype = ''speed'', duration = 3,
       statModifications = Some [(''physicalAttack'', 8), (''magicalAttack'', 8),
                                 (''physicalDefense'', - 2), (''magicalDefense'', - 2)],
       healthOverTime = Some 0, startTurn = Some 0, effectType = Some ''Drain'',
       powerLevel = Some ''weak'', chargeEffect = None\<rparr>]\<rparr>"
  unfolding afterDrain_def afterShield_eq
  by (simp add: tool_simps recalc_simps js_simps stat_simps ex_simps drainTool_def Let_def)

text \<open>
  Claim C1 at the failing input. A creature of derived \<^verbatim>\<open>maxHealth\<close> 50 at full health
  receives a Shield tool and a Drain tool on turn 0, which leave it at health 60 of 60.
  The ticks of turns 1 and 2 keep it there; the Shield effect expires in the tick of
  turn 2. The tick of turn 3 recomputes \<^verbatim>\<open>battleStats\<close> without the Shield effect:
  \<^verbatim>\<open>maxHealth\<close> is 50 and \<^verbatim>\<open>currentHealth\<close> is still 60.
\<close>

theorem stale_health_after_tick:
  "map (map_option healthAndMax) [Some afterDrain] = [Some (60, Some 60)] \<and>
   map (map_option healthAndMax) fieldTurn1 = [Some (60, Some 60)] \<and>
   map (map_option healthAndMax) fieldTurn2 = [Some (60, Some 60)] \<and>
   map (map_option healthAndMax) fieldTurn3 = [Some (60, Some 50)]"
  unfolding fieldTurn3_def fieldTurn2_def fieldTurn1_def afterDrain_eq
  by (simp add: applyOngoingEffects_def healthAndMax_def tick_simps js_simps stat_simps ex_simps Let_def)

lemma charged_eq: "charged = exCreature\<lparr>currentTurn := Some 0,
   battleStats := Some (exStats\<lparr>physicalDefense := 43\<rparr>),
   activeEffects := Some [Some \<lparr>effect_id = 3, effect_name = ''Olympia Emblem Effect'', etype = ''charge'',
       duration = 3, statModifications = Some [(''physicalDefense'', 3)],
       healthOverTime = Some 0, startTurn = Some 0, effectType = Some ''Charge'',
       powerLevel = Some ''weak'',
       chargeEffect = Some \<lparr>targetStat = ''physicalDefense'', perTurnBonus = 3, maxTurns = 3,
                              finalBurst = 25\<rparr>\<rparr>]\<rparr>"
  unfolding charged_def
  by (simp add: tool_simps recalc_simps js_simps stat_simps ex_simps chargeTool_def Let_def)

text \<open>
  Claim C2 at the failing input: the charge effect a Charge tool of category stamina
  leaves on turn 0 (\<^verbatim>\<open>perTurnBonus\<close> 3, \<^verbatim>\<open>maxTurns\<close> 3, \<^verbatim>\<open>finalBurst\<close> 25, target
  \<^verbatim>\<open>physicalDefense\<close>). The incremental bonus is 1 on turn 1 and 2 on turn 2; the tick
  raises \<^verbatim>\<open>physicalDefense\<close> by 2 on turn 1 and by 4 on turn 2 over the derived value,
  twice the bonus. On turn 3 the burst of 25 becomes the \<^verbatim>\<open>nextAttackBonus\<close> and the
  effect leaves the list.
\<close>

theorem charge_bonus_counted_twice:
  "js_floor (3 * (1 / 3)) = 1 \<and> js_floor (3 * (2 / 3)) = 2 \<and>
   map_option physicalDefense (battleStats chargedTurn1) = Some (physicalDefense exStats + 2) \<and>
   map_option physicalDefense (battleStats chargedTurn2) = Some (physicalDefense exStats + 4) \<and>
   nextAttackBonus chargedTurn2 = None \<and>
   nextAttackBonus chargedTurn3 = Some 25 \<and> effectsOf chargedTurn3 = []"
  unfolding chargedTurn3_def chargedTurn2_def chargedTurn1_def charged_eq
  by (simp add: tick_simps js_simps stat_simps ex_simps Let_def)

end
